theory Spec2Isabelle
  imports Complex_Main "HOL-Library.AList" "HOL-Library.Sublist"
begin

chapter \<open>Padelfinder: the tournament search proxy (api/index.py)\<close>

text \<open>
  A shallow embedding of \<^verbatim>\<open>src/api/index.py\<close>: the credential loaders, the mobile
  API client, the form-state negotiation, the paginated web scrape, the fallback
  orchestration of \<^verbatim>\<open>_perform_search\<close> and the cached endpoint \<^verbatim>\<open>search_tenup\<close>.

  Conventions of the embedding.
  \<^item> Everything outside the process (environment variables, the three credential files,
    the answers of the HTTP servers, the outcome of the headless browser) is a field of
    the record \<open>world\<close>; a function that touches it takes the world and returns it.
  \<^item> An exception is a value of type \<open>exc\<close>; a function that can raise returns
    \<open>exc + 'a\<close> (\<open>Inl\<close> is the raise).
  \<^item> Decoded JSON is the datatype \<open>json\<close>; numbers are integers (JSON floats are not
    modelled).
  \<^item> A coordinate is a Python float (\<open>pyfloat\<close>: sign and exact magnitude, infinities,
    nan); a timestamp is the exact rational it denotes. \<^verbatim>\<open>print\<close> has no counterpart.
  \<^item> The field \<open>trace\<close> of the world is a ghost log of the outbound calls and of the
    calls of \<^verbatim>\<open>asyncio.sleep(1)\<close>, in order.
\<close>

section \<open>Python values\<close>

datatype json =
    JNull
  | JBool bool
  | JInt int
  | JStr string
  | JList "json list"
  | JObj "(string \<times> json) list"

text \<open>
  Exceptions, by the handlers that tell them apart: \<^verbatim>\<open>fastapi.HTTPException\<close> with its
  status code and detail, \<^verbatim>\<open>RuntimeError\<close> with its message, and every other subclass of
  \<^verbatim>\<open>Exception\<close> (httpx errors, \<^verbatim>\<open>AttributeError\<close>, \<^verbatim>\<open>TypeError\<close>, JSON decoding errors)
  with the text \<^verbatim>\<open>str(e)\<close> gives.
\<close>

datatype exc =
    HTTPException nat string
  | RuntimeError string
  | OtherError string

fun str_nat :: "nat \<Rightarrow> string" where
  "str_nat n = (if n < 10 then [''0123456789'' ! n]
                else str_nat (n div 10) @ [''0123456789'' ! (n mod 10)])"

declare str_nat.simps [simp del]

definition str_int :: "int \<Rightarrow> string" where
  "str_int i = (if i < 0 then ''-'' @ str_nat (nat (- i)) else str_nat (nat i))"

text \<open>\<^verbatim>\<open>str(e)\<close>; Starlette prints an HTTPException as \<^verbatim>\<open>"{status_code}: {detail}"\<close>.\<close>

fun exc_str :: "exc \<Rightarrow> string" where
  "exc_str (HTTPException code detail) = str_nat code @ '': '' @ detail"
| "exc_str (RuntimeError msg) = msg"
| "exc_str (OtherError msg) = msg"

text \<open>\<^verbatim>\<open>sub in s\<close> on strings.\<close>

fun contains :: "string \<Rightarrow> string \<Rightarrow> bool" where
  "contains sub [] = (sub = [])"
| "contains sub (c # cs) = (prefix sub (c # cs) \<or> contains sub cs)"

text \<open>Truth value of a Python object (\<^verbatim>\<open>if x:\<close>, \<^verbatim>\<open>x or y\<close>).\<close>

fun truthy :: "json \<Rightarrow> bool" where
  "truthy JNull = False"
| "truthy (JBool b) = b"
| "truthy (JInt i) = (i \<noteq> 0)"
| "truthy (JStr s) = (s \<noteq> [])"
| "truthy (JList xs) = (xs \<noteq> [])"
| "truthy (JObj kvs) = (kvs \<noteq> [])"

text \<open>\<^verbatim>\<open>obj.get(key, default)\<close>: only a dict has the method.\<close>

fun py_get :: "json \<Rightarrow> string \<Rightarrow> json \<Rightarrow> exc + json" where
  "py_get (JObj kvs) k d = Inr (case map_of kvs k of None \<Rightarrow> d | Some v \<Rightarrow> v)"
| "py_get _ k d = Inl (OtherError ''AttributeError: object has no attribute get'')"

text \<open>
  \<^verbatim>\<open>for x in obj\<close>: a list gives its elements, a dict its keys, a string its characters;
  nothing else is iterable.
\<close>

fun py_iter :: "json \<Rightarrow> exc + json list" where
  "py_iter (JList xs) = Inr xs"
| "py_iter (JObj kvs) = Inr (map (\<lambda>kv. JStr (fst kv)) kvs)"
| "py_iter (JStr s) = Inr (map (\<lambda>c. JStr [c]) s)"
| "py_iter _ = Inl (OtherError ''TypeError: object is not iterable'')"

text \<open>
  The member of a \<^verbatim>\<open>set\<close> an object stands for: \<^verbatim>\<open>True == 1\<close> and \<^verbatim>\<open>False == 0\<close> with equal
  hashes; lists and dicts are unhashable.
\<close>

fun hash_key :: "json \<Rightarrow> exc + json" where
  "hash_key (JBool b) = Inr (JInt (if b then 1 else 0))"
| "hash_key (JList xs) = Inl (OtherError ''TypeError: unhashable type: list'')"
| "hash_key (JObj kvs) = Inl (OtherError ''TypeError: unhashable type: dict'')"
| "hash_key j = Inr j"

text \<open>\<^verbatim>\<open>n >= x\<close> for an \<^verbatim>\<open>int\<close> n: defined against numbers only.\<close>

fun py_ge :: "nat \<Rightarrow> json \<Rightarrow> exc + bool" where
  "py_ge n (JInt t) = Inr (t \<le> int n)"
| "py_ge n (JBool b) = Inr ((if b then 1 else 0) \<le> n)"
| "py_ge n _ = Inl (OtherError ''TypeError: >= not supported between these instances'')"

section \<open>The world\<close>

text \<open>
  An environment variable or a file that is read and decoded: it is missing, or it is
  there but reading or decoding it raises, or it holds a value.
\<close>

datatype 'a stored = Missing | Corrupt | Holds 'a

text \<open>
  An HTTP response as the code reads it: the status code, the \<^verbatim>\<open>Location\<close> header, the body
  text, \<^verbatim>\<open>str(resp.url)\<close>, what \<^verbatim>\<open>resp.json()\<close> returns (\<open>None\<close>: it raises) and the message
  httpx gives the error \<^verbatim>\<open>raise_for_status()\<close> raises for it.
\<close>

record response =
  status_code :: nat
  location :: "string option"
  html :: string
  resp_url :: string
  parsed :: "json option"
  reason :: string

record cookie =
  cookie_name :: string
  cookie_value :: string
  cookie_domain :: string

text \<open>The ghost log: one event for each call that leaves the process or writes a file.\<close>

datatype event =
    MobileGet json
  | TokenPost json
  | TokenSave json
  | SiteGet string
  | CookieSet string
  | AjaxPost nat json
  | BrowserRun
  | CookieSave string
  | WebFetch string
  | Sleep

record world =
  env_vercel :: "string option"
  env_token :: "json stored"
  env_cookie :: "string option"
  token_file :: "json stored"
  cookie_file :: "string stored"
  cookie_alt_file :: "string stored"
  token_writable :: bool
  cookie_writable :: bool
  http :: "nat \<Rightarrow> exc + response"
  n_http :: nat
  browser :: "exc + cookie list"
  urljoin :: "string \<Rightarrow> string \<Rightarrow> string"
  unquote :: "string \<Rightarrow> string"
  float_repr :: "bool \<Rightarrow> nat \<Rightarrow> string"
  trace :: "event list"

text \<open>
  One HTTP exchange: the event is logged, the next answer of the oracle \<open>http\<close> is
  consumed. \<open>Inl\<close> is a transport failure (connection error, timeout).
\<close>

definition exchange :: "event \<Rightarrow> world \<Rightarrow> (exc + response) \<times> world" where
  "exchange ev w = (http w (n_http w), w\<lparr>n_http := Suc (n_http w), trace := trace w @ [ev]\<rparr>)"

text \<open>\<^verbatim>\<open>resp.raise_for_status()\<close>: httpx raises unless the status is 2xx.\<close>

definition is_success :: "response \<Rightarrow> bool" where
  "is_success r = (200 \<le> status_code r \<and> status_code r < 300)"

definition raise_for_status :: "response \<Rightarrow> exc + unit" where
  "raise_for_status r = (if is_success r then Inr () else Inl (OtherError (reason r)))"

definition resp_json :: "response \<Rightarrow> exc + json" where
  "resp_json r = (case parsed r of None \<Rightarrow> Inl (OtherError ''JSONDecodeError'')
                                  | Some j \<Rightarrow> Inr j)"

section \<open>Credential store\<close>

text \<open>
  \<^verbatim>\<open>load_token_file\<close>: the token file first (the source's comment: highest priority, it
  holds refreshed tokens), then the variable \<^verbatim>\<open>TENUP_TOKEN\<close>, then \<^verbatim>\<open>None\<close> (\<open>JNull\<close>).
  \<open>token_file\<close> is \<open>Missing\<close> when the path does not exist and \<open>Corrupt\<close> when opening
  or decoding it raises; \<open>env_token\<close> is \<open>Missing\<close> when the variable is unset or
  empty and \<open>Corrupt\<close> when \<^verbatim>\<open>json.loads\<close> raises on it.
\<close>

definition load_token_file :: "world \<Rightarrow> json" where
  "load_token_file w =
     (case token_file w of
        Holds j \<Rightarrow> j
      | _ \<Rightarrow> (case env_token w of Holds j \<Rightarrow> j | _ \<Rightarrow> JNull))"

text \<open>String methods, on ASCII text.\<close>

definition is_space :: "char \<Rightarrow> bool" where
  "is_space c = (let n = (of_char c :: nat) in (9 \<le> n \<and> n \<le> 13) \<or> (28 \<le> n \<and> n \<le> 32))"

definition is_linebreak :: "char \<Rightarrow> bool" where
  "is_linebreak c = (let n = (of_char c :: nat) in (10 \<le> n \<and> n \<le> 13) \<or> (28 \<le> n \<and> n \<le> 30))"

definition py_strip :: "string \<Rightarrow> string" where
  "py_strip s = rev (dropWhile is_space (rev (dropWhile is_space s)))"

definition lower_char :: "char \<Rightarrow> char" where
  "lower_char c =
     (case map_of (zip ''ABCDEFGHIJKLMNOPQRSTUVWXYZ'' ''abcdefghijklmnopqrstuvwxyz'') c of
        None \<Rightarrow> c
      | Some l \<Rightarrow> l)"

definition py_lower :: "string \<Rightarrow> string" where
  "py_lower s = map lower_char s"

text \<open>\<^verbatim>\<open>raw.split(":", 1)[1]\<close>, used where \<open>raw\<close> has a colon: what follows the first one.\<close>

definition after_colon :: "string \<Rightarrow> string" where
  "after_colon s = drop 1 (dropWhile (\<lambda>c. c \<noteq> CHR '':'') s)"

fun split_on :: "(char \<Rightarrow> bool) \<Rightarrow> string \<Rightarrow> string list" where
  "split_on P [] = [[]]"
| "split_on P (c # cs) =
     (if P c then [] # split_on P cs
      else (case split_on P cs of [] \<Rightarrow> [[c]] | x # xs \<Rightarrow> (c # x) # xs))"

fun join :: "string \<Rightarrow> string list \<Rightarrow> string" where
  "join sep [] = []"
| "join sep [x] = x"
| "join sep (x # y # ys) = x @ sep @ join sep (y # ys)"

definition strip_cookie_prefix :: "string \<Rightarrow> string" where
  "strip_cookie_prefix s =
     (let raw = py_strip s
      in if prefix ''cookie:'' (py_lower raw) then py_strip (after_colon raw) else raw)"

text \<open>
  The lines of a cookie file, stripped, the empty ones dropped, joined by \<^verbatim>\<open>"; "\<close>
  (empty pieces are dropped, so splitting at every line-break character is
  \<^verbatim>\<open>splitlines()\<close> here).
\<close>

definition collapse_lines :: "string \<Rightarrow> string" where
  "collapse_lines raw =
     join ''; '' (filter (\<lambda>p. p \<noteq> []) (map py_strip (split_on is_linebreak raw)))"

definition read_cookie_file :: "string stored \<Rightarrow> string option" where
  "read_cookie_file f =
     (case f of Holds s \<Rightarrow> Some (collapse_lines (strip_cookie_prefix s)) | _ \<Rightarrow> None)"

text \<open>
  \<^verbatim>\<open>load_cookie_header\<close>: the variable \<^verbatim>\<open>TENUP_COOKIE\<close> when it is set and not empty, else
  \<^verbatim>\<open>cookie.txt\<close> when it exists (\<^verbatim>\<open>None\<close> when reading it raises), else \<^verbatim>\<open>cookies.txt\<close>.
\<close>

definition load_cookie_header :: "world \<Rightarrow> string option" where
  "load_cookie_header w =
     (case env_cookie w of
        Some (c # cs) \<Rightarrow> Some (strip_cookie_prefix (c # cs))
      | _ \<Rightarrow>
        (if cookie_file w \<noteq> Missing then read_cookie_file (cookie_file w)
         else if cookie_alt_file w \<noteq> Missing then read_cookie_file (cookie_alt_file w)
         else None))"

text \<open>
  \<^verbatim>\<open>save_token_file\<close>: the call is logged; every failure of the write is swallowed. The bundle comes from
  \<^verbatim>\<open>resp.json()\<close>, so \<^verbatim>\<open>json.dump\<close> cannot fail on it; \<open>token_writable\<close> says whether the
  directory and the file can be written.
\<close>

definition save_token_file :: "json \<Rightarrow> world \<Rightarrow> world" where
  "save_token_file d w =
     (let w1 = w\<lparr>trace := trace w @ [TokenSave d]\<rparr>
      in if token_writable w then w1\<lparr>token_file := Holds d\<rparr> else w1)"

section \<open>Token refresher and headless cookie refresher\<close>

definition refresh_access_token :: "json \<Rightarrow> world \<Rightarrow> (exc + json) \<times> world" where
  "refresh_access_token refresh_token w =
     (case exchange (TokenPost refresh_token) w of
        (Inl e, w1) \<Rightarrow> (Inl e, w1)
      | (Inr resp, w1) \<Rightarrow>
          (case raise_for_status resp of
             Inl e \<Rightarrow> (Inl e, w1)
           | Inr _ \<Rightarrow> (resp_json resp, w1)))"

definition cookie_pair :: "cookie \<Rightarrow> string" where
  "cookie_pair c = cookie_name c @ ''='' @ cookie_value c"

text \<open>
  \<^verbatim>\<open>fetch_cookie_header_via_playwright\<close>. \<open>browser w\<close> is what the browser session ends
  with: an exception (the import, the launch or the navigation fails), or the cookies
  of the context. The write of \<^verbatim>\<open>cookies.txt\<close> is not guarded: its failure propagates.
\<close>

definition fetch_cookie_header_via_playwright ::
  "world \<Rightarrow> (exc + string) \<times> world" where
  "fetch_cookie_header_via_playwright w =
     (if env_vercel w = Some ''1''
      then (Inl (RuntimeError
              ''Playwright not supported on Vercel. Please set 'TENUP_COOKIE' env var.''), w)
      else
        (let w1 = w\<lparr>trace := trace w @ [BrowserRun]\<rparr>
         in case browser w of
              Inl e \<Rightarrow> (Inl e, w1)
            | Inr cookies \<Rightarrow>
                (let scoped = filter (\<lambda>c. contains ''tenup.fft.fr'' (cookie_domain c)) cookies;
                     tenup_cookies = (if scoped = [] then cookies else scoped);
                     header = join ''; '' (map cookie_pair tenup_cookies);
                     w2 = w1\<lparr>trace := trace w1 @ [CookieSave header]\<rparr>
                 in if header = []
                    then (Inl (RuntimeError ''Playwright did not return any cookies.''), w1)
                    else if cookie_writable w
                    then (Inr header, w2\<lparr>cookie_alt_file := Holds header\<rparr>)
                    else (Inl (OtherError ''OSError: cannot write cookies.txt''), w2))))"

section \<open>Primary source client (mobile API)\<close>

definition dict_get :: "(string \<times> json) list \<Rightarrow> string \<Rightarrow> json" where
  "dict_get kvs k = (case map_of kvs k of None \<Rightarrow> JNull | Some v \<Rightarrow> v)"

text \<open>
  One item of \<^verbatim>\<open>normalize_dates\<close>: \<^verbatim>\<open>dateDebut\<close> and \<^verbatim>\<open>dateFin\<close> are added from
  \<^verbatim>\<open>startDate\<close> and \<^verbatim>\<open>endDate\<close> when the former are missing or falsy.
\<close>

fun normalize_item :: "json \<Rightarrow> exc + json" where
  "normalize_item (JObj kvs) =
     (let kvs1 = (if truthy (dict_get kvs ''startDate'') \<and> \<not> truthy (dict_get kvs ''dateDebut'')
                  then AList.update ''dateDebut'' (JObj [(''date'', dict_get kvs ''startDate'')]) kvs
                  else kvs);
          kvs2 = (if truthy (dict_get kvs1 ''endDate'') \<and> \<not> truthy (dict_get kvs1 ''dateFin'')
                  then AList.update ''dateFin'' (JObj [(''date'', dict_get kvs1 ''endDate'')]) kvs1
                  else kvs1)
      in Inr (JObj kvs2))"
| "normalize_item _ = Inl (OtherError ''AttributeError: object has no attribute get'')"

fun normalize_all :: "json list \<Rightarrow> exc + json list" where
  "normalize_all [] = Inr []"
| "normalize_all (it # rest) =
     (case normalize_item it of
        Inl e \<Rightarrow> Inl e
      | Inr it' \<Rightarrow> (case normalize_all rest of Inl e \<Rightarrow> Inl e | Inr rest' \<Rightarrow> Inr (it' # rest')))"

definition normalize_dates :: "json \<Rightarrow> exc + json list" where
  "normalize_dates items = (case py_iter items of Inl e \<Rightarrow> Inl e | Inr l \<Rightarrow> normalize_all l)"

text \<open>The detail of the 401 (the source's text has accented letters).\<close>

definition token_expired :: string where
  "token_expired = ''Token expire ou invalide. Relance scripts/tenup_auth.py''"

text \<open>\<^verbatim>\<open>data.get("items") or data.get("content") or []\<close>\<close>

definition items_of :: "json \<Rightarrow> exc + json" where
  "items_of d =
     (case py_get d ''items'' JNull of
        Inl e \<Rightarrow> Inl e
      | Inr a \<Rightarrow>
          if truthy a then Inr a
          else (case py_get d ''content'' JNull of
                  Inl e \<Rightarrow> Inl e
                | Inr b \<Rightarrow> if truthy b then Inr b else Inr (JList [])))"

text \<open>
  \<^verbatim>\<open>fetch_mobile_api\<close>: a 401 is raised as an \<^verbatim>\<open>HTTPException\<close> before
  \<^verbatim>\<open>raise_for_status\<close> is reached; every other failure is an error of another class.
\<close>

definition fetch_mobile_api :: "json \<Rightarrow> world \<Rightarrow> (exc + json list \<times> json) \<times> world" where
  "fetch_mobile_api token w =
     (case exchange (MobileGet token) w of
        (Inl e, w1) \<Rightarrow> (Inl e, w1)
      | (Inr resp, w1) \<Rightarrow>
          if status_code resp = 401 then (Inl (HTTPException 401 token_expired), w1)
          else (case raise_for_status resp of
                  Inl e \<Rightarrow> (Inl e, w1)
                | Inr _ \<Rightarrow>
                    (case resp_json resp of
                       Inl e \<Rightarrow> (Inl e, w1)
                     | Inr d \<Rightarrow>
                         (case items_of d of
                            Inl e \<Rightarrow> (Inl e, w1)
                          | Inr its \<Rightarrow>
                              (case normalize_dates its of
                                 Inl e \<Rightarrow> (Inl e, w1)
                               | Inr l \<Rightarrow> (Inr (l, d), w1))))))"

section \<open>Form-state negotiator\<close>

definition TENUP_BASE :: string where "TENUP_BASE = ''https://tenup.fft.fr''"
definition SEARCH_PATH :: string where "SEARCH_PATH = ''/recherche/tournois''"

definition dquote :: char where "dquote = CHR 0x22"
definition squote :: char where "squote = CHR 0x27"
definition backslash :: char where "backslash = CHR 0x5C"

text \<open>
  The regular expressions of \<^verbatim>\<open>get_form_state\<close>. \<open>match_at pre q post s\<close> matches, at the
  start of \<open>s\<close>, the literal \<open>pre\<close>, then \<^verbatim>\<open>([^q]+)\<close>, then the literal \<open>post\<close>, and gives
  the group; \<open>post\<close> starts with \<open>q\<close> where it is used, so the group is the whole run of
  characters other than \<open>q\<close>. \<open>re_search\<close> is \<^verbatim>\<open>re.search\<close>: the leftmost start that matches.
\<close>

definition match_at :: "string \<Rightarrow> char \<Rightarrow> string \<Rightarrow> string \<Rightarrow> string option" where
  "match_at pre q post s =
     (if prefix pre s
      then (let rest = drop (length pre) s;
                run = takeWhile (\<lambda>c. c \<noteq> q) rest
            in if run \<noteq> [] \<and> prefix post (dropWhile (\<lambda>c. c \<noteq> q) rest) then Some run else None)
      else None)"

fun re_search :: "(string \<Rightarrow> 'a option) \<Rightarrow> string \<Rightarrow> 'a option" where
  "re_search m [] = m []"
| "re_search m (c # cs) = (case m (c # cs) of Some r \<Rightarrow> Some r | None \<Rightarrow> re_search m cs)"

text \<open>\<^verbatim>\<open>"theme_token":"([^"]+)"\<close>\<close>

definition find_theme_token :: "string \<Rightarrow> string option" where
  "find_theme_token =
     re_search (match_at ([dquote] @ ''theme_token'' @ [dquote] @ '':'' @ [dquote]) dquote [dquote])"

text \<open>
  \<^verbatim>\<open>name="form_build_id"[^>]*value="([^"]+)"\<close>: the greedy \<^verbatim>\<open>[^>]*\<close> gives back one
  character at a time, so the match is at the last offset of the run where the rest
  matches.
\<close>

definition match_value :: "string \<Rightarrow> string option" where
  "match_value = match_at (''value='' @ [dquote]) dquote [dquote]"

fun try_gap :: "nat \<Rightarrow> string \<Rightarrow> string option" where
  "try_gap 0 rest = match_value rest"
| "try_gap (Suc j) rest =
     (case match_value (drop (Suc j) rest) of Some r \<Rightarrow> Some r | None \<Rightarrow> try_gap j rest)"

definition match_form_build_id :: "string \<Rightarrow> string option" where
  "match_form_build_id s =
     (let pre = ''name='' @ [dquote] @ ''form_build_id'' @ [dquote]
      in if prefix pre s
         then (let rest = drop (length pre) s
               in try_gap (length (takeWhile (\<lambda>c. c \<noteq> CHR ''>'') rest)) rest)
         else None)"

definition find_form_build_id :: "string \<Rightarrow> string option" where
  "find_form_build_id = re_search match_form_build_id"

text \<open>
  The redirect pattern, as the source writes it: the raw string
  \<^verbatim>\<open>r"decodeURIComponent\\('([^']+)'\\)"\<close>. In a raw string \<^verbatim>\<open>\\\<close> is two characters, which
  the regular expression reads as one literal backslash; the parenthesis after it then
  opens a group. The expression is: \<^verbatim>\<open>decodeURIComponent\<close>, a backslash, group 1 made of a
  quote, group 2 \<^verbatim>\<open>[^']+\<close>, a quote and a backslash. \<open>find_redirect\<close> is \<^verbatim>\<open>mredir.group(1)\<close>.
\<close>

definition find_redirect :: "string \<Rightarrow> string option" where
  "find_redirect s =
     (case re_search (match_at (''decodeURIComponent'' @ [backslash, squote]) squote
                        [squote, backslash]) s of
        None \<Rightarrow> None
      | Some run \<Rightarrow> Some ([squote] @ run @ [squote, backslash]))"

definition queue_redirect_msg :: string where
  "queue_redirect_msg = ''Queue-it redirection detected; cookies invalid or expired.''"

definition queue_page_msg :: string where
  "queue_page_msg = ''Queue-it page detected; cookies invalid or expired.''"

text \<open>
  The loop of \<^verbatim>\<open>get_form_state\<close>, \<open>n\<close> iterations left; \<open>last_html\<close> is the variable
  \<^verbatim>\<open>html\<close>. \<open>resp_url\<close> is \<^verbatim>\<open>str(resp.url)\<close>; \<open>urljoin\<close> and \<open>unquote\<close> are the standard
  library's, taken from the world. Each \<^verbatim>\<open>await asyncio.sleep(1)\<close> is logged as \<open>Sleep\<close>.
\<close>

fun get_form_loop :: "nat \<Rightarrow> string \<Rightarrow> string \<Rightarrow> world \<Rightarrow> (exc + string \<times> string) \<times> world" where
  "get_form_loop 0 url last_html w =
     (Inl (RuntimeError (''TenUp inaccessible. Snippet: '' @
             (if last_html \<noteq> [] then take 300 last_html else ''No HTML''))), w)"
| "get_form_loop (Suc n) url last_html w =
     (case exchange (SiteGet url) w of
        (Inl e, w1) \<Rightarrow> (Inl e, w1)
      | (Inr resp, w1) \<Rightarrow>
          if status_code resp \<in> {301, 302, 303, 307, 308}
          then (let loc = (case location resp of None \<Rightarrow> [] | Some l \<Rightarrow> l)
                in if contains ''queue-it.net'' loc
                   then (Inl (RuntimeError queue_redirect_msg), w1)
                   else get_form_loop n (urljoin w1 TENUP_BASE loc) (html resp)
                          (w1\<lparr>trace := trace w1 @ [Sleep]\<rparr>))
          else if contains ''queue-it.net'' (resp_url resp)
          then (Inl (RuntimeError queue_page_msg), w1)
          else (case (if contains ''decodeURIComponent'' (html resp) \<and>
                         contains ''cookietest'' (html resp)
                      then find_redirect (html resp) else None) of
                  Some g \<Rightarrow>
                    get_form_loop n (urljoin w1 TENUP_BASE (unquote w1 g)) (html resp)
                      (w1\<lparr>trace := trace w1 @ [CookieSet ''cookietest'', Sleep]\<rparr>)
                | None \<Rightarrow>
                    (case (find_form_build_id (html resp), find_theme_token (html resp)) of
                       (Some fid, Some tk) \<Rightarrow> (Inr (fid, tk), w1)
                     | _ \<Rightarrow>
                         get_form_loop n url (html resp) (w1\<lparr>trace := trace w1 @ [Sleep]\<rparr>))))"

definition get_form_state :: "world \<Rightarrow> (exc + string \<times> string) \<times> world" where
  "get_form_state w =
     (case exchange (SiteGet (TENUP_BASE @ ''/'')) w of
        (Inl e, w1) \<Rightarrow> (Inl e, w1)
      | (Inr _, w1) \<Rightarrow> get_form_loop 5 (TENUP_BASE @ SEARCH_PATH) [] w1)"

section \<open>Secondary source client (web AJAX scraper)\<close>

text \<open>The local variables of \<^verbatim>\<open>fetch_web_ajax\<close> that the two loops update.\<close>

record scrape =
  all_items :: "json list"
  seen_ids :: "json list"
  total_from_api :: json
  current_theme_token :: json

text \<open>
  \<open>seen_ids\<close> is the Python set, kept as the list of its members in the order they were
  added; a member is added only when it is not in the set, so the list has no
  duplicates and its length is \<^verbatim>\<open>len(seen_ids)\<close>.
\<close>

text \<open>\<^verbatim>\<open>item.get("originalId") or item.get("id") or ""\<close>\<close>

definition item_id :: "json \<Rightarrow> exc + json" where
  "item_id item =
     (case py_get item ''originalId'' JNull of
        Inl e \<Rightarrow> Inl e
      | Inr a \<Rightarrow>
          if truthy a then Inr a
          else (case py_get item ''id'' JNull of
                  Inl e \<Rightarrow> Inl e
                | Inr b \<Rightarrow> if truthy b then Inr b else Inr (JStr [])))"

text \<open>
  The body of the item loop:
  \<^verbatim>\<open>if item_id and item_id not in seen_ids: seen_ids.add(item_id); all_items.append(item)\<close>
\<close>

definition add_item :: "json \<Rightarrow> scrape \<Rightarrow> exc + scrape" where
  "add_item item s =
     (case item_id item of
        Inl e \<Rightarrow> Inl e
      | Inr k \<Rightarrow>
          if \<not> truthy k then Inr s
          else (case hash_key k of
                  Inl e \<Rightarrow> Inl e
                | Inr h \<Rightarrow>
                    if h \<in> set (seen_ids s) then Inr s
                    else Inr (s\<lparr>seen_ids := seen_ids s @ [h], all_items := all_items s @ [item]\<rparr>)))"

text \<open>
  A loop inside a \<^verbatim>\<open>try\<close>: what it did before the exception stays done, so the state
  comes back with the exception, if any.
\<close>

fun add_items :: "json list \<Rightarrow> scrape \<Rightarrow> scrape \<times> exc option" where
  "add_items [] s = (s, None)"
| "add_items (item # rest) s =
     (case add_item item s of Inl e \<Rightarrow> (s, Some e) | Inr s' \<Rightarrow> add_items rest s')"

text \<open>\<^verbatim>\<open>cmd.get("settings", {}).get("ajaxPageState", {}).get("theme_token", current)\<close>\<close>

definition settings_token :: "json \<Rightarrow> json \<Rightarrow> exc + json" where
  "settings_token cmd cur =
     (case py_get cmd ''settings'' (JObj []) of
        Inl e \<Rightarrow> Inl e
      | Inr st \<Rightarrow>
          (case py_get st ''ajaxPageState'' (JObj []) of
             Inl e \<Rightarrow> Inl e
           | Inr ps \<Rightarrow> py_get ps ''theme_token'' cur))"

text \<open>
  The body of \<^verbatim>\<open>if cmd.get("command") == "recherche_tournois_update":\<close>. On page 0
  (\<open>first\<close>) it also sets \<^verbatim>\<open>total_from_api\<close>; on the later pages it only adds items.
\<close>

definition results_update :: "bool \<Rightarrow> json \<Rightarrow> scrape \<Rightarrow> scrape \<times> exc option" where
  "results_update first cmd s =
     (case py_get cmd ''results'' (JObj []) of
        Inl e \<Rightarrow> (s, Some e)
      | Inr results \<Rightarrow>
          (case (if first then py_get results ''nb_results'' (JInt 0)
                 else Inr (total_from_api s)) of
             Inl e \<Rightarrow> (s, Some e)
           | Inr t \<Rightarrow>
               (case py_get results ''items'' (JList []) of
                  Inl e \<Rightarrow> (s\<lparr>total_from_api := t\<rparr>, Some e)
                | Inr its \<Rightarrow>
                    (case py_iter its of
                       Inl e \<Rightarrow> (s\<lparr>total_from_api := t\<rparr>, Some e)
                     | Inr l \<Rightarrow> add_items l (s\<lparr>total_from_api := t\<rparr>)))))"

text \<open>One directive of the response: a \<^verbatim>\<open>settings\<close> directive may carry a new theme token.\<close>

definition run_directive :: "bool \<Rightarrow> json \<Rightarrow> scrape \<Rightarrow> scrape \<times> exc option" where
  "run_directive first cmd s =
     (case py_get cmd ''command'' JNull of
        Inl e \<Rightarrow> (s, Some e)
      | Inr c \<Rightarrow>
          if c = JStr ''settings''
          then (case settings_token cmd (current_theme_token s) of
                  Inl e \<Rightarrow> (s, Some e)
                | Inr t \<Rightarrow> (s\<lparr>current_theme_token := t\<rparr>, None))
          else if c = JStr ''recherche_tournois_update''
          then results_update first cmd s
          else (s, None))"

fun run_directives :: "bool \<Rightarrow> json list \<Rightarrow> scrape \<Rightarrow> scrape \<times> exc option" where
  "run_directives first [] s = (s, None)"
| "run_directives first (cmd # rest) s =
     (case run_directive first cmd s of
        (s', Some e) \<Rightarrow> (s', Some e)
      | (s', None) \<Rightarrow> run_directives first rest s')"

text \<open>\<^verbatim>\<open>data = resp.json(); for cmd in data: ...\<close>\<close>

definition process_body :: "bool \<Rightarrow> response \<Rightarrow> scrape \<Rightarrow> scrape \<times> exc option" where
  "process_body first resp s =
     (case resp_json resp of
        Inl e \<Rightarrow> (s, Some e)
      | Inr d \<Rightarrow> (case py_iter d of Inl e \<Rightarrow> (s, Some e) | Inr cmds \<Rightarrow> run_directives first cmds s))"

text \<open>
  The \<^verbatim>\<open>try\<close> block of one iteration of the pagination loop: the page is posted with the
  latest theme token and its items are added. The flag says whether the loop goes on:
  every exception inside the \<^verbatim>\<open>try\<close> ends the loop (\<^verbatim>\<open>break\<close> in the handler), and so does
  a page that adds no item (\<^verbatim>\<open>new_count == 0\<close>).
\<close>

definition fetch_page :: "nat \<Rightarrow> scrape \<Rightarrow> world \<Rightarrow> (scrape \<times> bool) \<times> world" where
  "fetch_page page_num s w =
     (case exchange (AjaxPost page_num (current_theme_token s)) w of
        (Inl e, w1) \<Rightarrow> ((s, False), w1)
      | (Inr resp, w1) \<Rightarrow>
          (case raise_for_status resp of
             Inl e \<Rightarrow> ((s, False), w1)
           | Inr _ \<Rightarrow>
               (case process_body False resp s of
                  (s', Some e) \<Rightarrow> ((s', False), w1)
                | (s', None) \<Rightarrow>
                    ((s', int (length (all_items s')) - int (length (all_items s)) \<noteq> 0), w1))))"

text \<open>
  The pagination loop over the page numbers still to come. The comparison with
  \<^verbatim>\<open>total_from_api\<close> is outside the \<^verbatim>\<open>try\<close>: its \<^verbatim>\<open>TypeError\<close> leaves the function.
\<close>

fun paginate :: "nat list \<Rightarrow> scrape \<Rightarrow> world \<Rightarrow> (exc + scrape) \<times> world" where
  "paginate [] s w = (Inr s, w)"
| "paginate (page_num # rest) s w =
     (case py_ge (length (seen_ids s)) (total_from_api s) of
        Inl e \<Rightarrow> (Inl e, w)
      | Inr True \<Rightarrow> (Inr s, w)
      | Inr False \<Rightarrow>
          (case fetch_page page_num s w of
             ((s', True), w1) \<Rightarrow> paginate rest s' w1
           | ((s', False), w1) \<Rightarrow> (Inr s', w1)))"

record result =
  count :: nat
  items :: "json list"
  source :: string
  total_api :: "json option"

definition init_scrape :: "string \<Rightarrow> scrape" where
  "init_scrape theme_token =
     \<lparr>all_items = [], seen_ids = [], total_from_api = JInt 0,
      current_theme_token = JStr theme_token\<rparr>"

text \<open>
  \<^verbatim>\<open>fetch_web_ajax\<close>. The form payload is not modelled beyond the page number and the
  theme token it carries (the event \<open>AjaxPost\<close>); \<^verbatim>\<open>parse_cookie_header\<close> cannot raise. The
  local \<^verbatim>\<open>max_pages = 10\<close> overrides the parameter: the pages are \<^verbatim>\<open>range(1, 10)\<close>.
\<close>

definition fetch_web_ajax :: "string \<Rightarrow> world \<Rightarrow> (exc + result) \<times> world" where
  "fetch_web_ajax cookie_header w =
     (case get_form_state (w\<lparr>trace := trace w @ [WebFetch cookie_header]\<rparr>) of
        (Inl e, w1) \<Rightarrow> (Inl e, w1)
      | (Inr (form_build_id, theme_token), w1) \<Rightarrow>
          (case exchange (AjaxPost 0 (JStr theme_token)) w1 of
             (Inl e, w2) \<Rightarrow> (Inl e, w2)
           | (Inr resp, w2) \<Rightarrow>
               (case raise_for_status resp of
                  Inl e \<Rightarrow> (Inl e, w2)
                | Inr _ \<Rightarrow>
                    (case paginate [1..<10] (fst (process_body True resp (init_scrape theme_token))) w2 of
                       (Inl e, w3) \<Rightarrow> (Inl e, w3)
                     | (Inr s, w3) \<Rightarrow>
                         (Inr \<lparr>count = length (all_items s), items = all_items s,
                               source = ''tenup_web'', total_api = Some (total_from_api s)\<rparr>, w3)))))"

section \<open>Search orchestrator\<close>

definition mobile_result :: "json list \<Rightarrow> result" where
  "mobile_result its =
     \<lparr>count = length its, items = its, source = ''mobile_api'', total_api = None\<rparr>"

text \<open>
  The mobile block of \<^verbatim>\<open>_perform_search\<close>. \<open>Inr (Some r)\<close>: the function returns \<open>r\<close>;
  \<open>Inr None\<close>: control falls through to the web block; \<open>Inl e\<close>: \<open>e\<close> leaves the function
  (the test \<^verbatim>\<open>token_data.get("access_token")\<close> is outside every \<^verbatim>\<open>try\<close>).
\<close>

definition mobile_tier :: "world \<Rightarrow> (exc + result option) \<times> world" where
  "mobile_tier w =
     (let token_data = load_token_file w
      in if \<not> truthy token_data then (Inr None, w)
         else (case py_get token_data ''access_token'' JNull of
                 Inl e \<Rightarrow> (Inl e, w)
               | Inr access_token \<Rightarrow>
                   if \<not> truthy access_token then (Inr None, w)
                   else (case py_get token_data ''refresh_token'' JNull of
                           Inl e \<Rightarrow> (Inl e, w)
                         | Inr refresh_token \<Rightarrow>
                             (case fetch_mobile_api access_token w of
                                (Inr (its, raw), w1) \<Rightarrow> (Inr (Some (mobile_result its)), w1)
                              | (Inl (HTTPException code detail), w1) \<Rightarrow>
                                  if code = 401 \<and> truthy refresh_token
                                  then (case refresh_access_token refresh_token w1 of
                                          (Inl e, w2) \<Rightarrow> (Inr None, w2)
                                        | (Inr new_tok, w2) \<Rightarrow>
                                            (let w3 = save_token_file new_tok w2
                                             in case py_get new_tok ''access_token'' JNull of
                                                  Inl e \<Rightarrow> (Inr None, w3)
                                                | Inr t \<Rightarrow>
                                                    (case fetch_mobile_api t w3 of
                                                       (Inr (its, raw), w4) \<Rightarrow>
                                                         (Inr (Some (mobile_result its)), w4)
                                                     | (Inl e, w4) \<Rightarrow> (Inr None, w4))))
                                  else (Inr None, w1)
                              | (Inl e, w1) \<Rightarrow> (Inr None, w1)))))"

definition web_error :: "exc \<Rightarrow> exc" where
  "web_error e = HTTPException 500 (''TenUp web error: '' @ exc_str e)"

text \<open>The block under \<^verbatim>\<open>if cookie_header:\<close>.\<close>

definition web_tier :: "string \<Rightarrow> world \<Rightarrow> (exc + result) \<times> world" where
  "web_tier cookie_header w =
     (case fetch_web_ajax cookie_header w of
        (Inr r, w1) \<Rightarrow> (Inr r, w1)
      | (Inl e, w1) \<Rightarrow>
          if contains ''Queue-it redirection detected'' (exc_str e)
          then (case fetch_cookie_header_via_playwright w1 of
                  (Inl e2, w2) \<Rightarrow> (Inl (web_error e2), w2)
                | (Inr fresh, w2) \<Rightarrow>
                    (case fetch_web_ajax fresh w2 of
                       (Inr r, w3) \<Rightarrow> (Inr r, w3)
                     | (Inl e2, w3) \<Rightarrow> (Inl (web_error e2), w3)))
          else (Inl (web_error e), w1))"

definition exhausted :: "exc \<Rightarrow> exc" where
  "exhausted e =
     HTTPException 502 (''API mobile indisponible et cookies headless echoues: '' @ exc_str e)"

text \<open>The last block: headless cookies, then one web fetch.\<close>

definition last_resort :: "world \<Rightarrow> (exc + result) \<times> world" where
  "last_resort w =
     (case fetch_cookie_header_via_playwright w of
        (Inl e, w1) \<Rightarrow> (Inl (exhausted e), w1)
      | (Inr fresh, w1) \<Rightarrow>
          (case fetch_web_ajax fresh w1 of
             (Inr r, w2) \<Rightarrow> (Inr r, w2)
           | (Inl e, w2) \<Rightarrow> (Inl (exhausted e), w2)))"

text \<open>
  \<^verbatim>\<open>_perform_search\<close>. Both credentials are loaded first; the query only fills request
  parameters, which the model does not carry.
\<close>

definition perform_search :: "world \<Rightarrow> (exc + result) \<times> world" where
  "perform_search w =
     (let cookie_header = load_cookie_header w
      in case mobile_tier w of
           (Inl e, w1) \<Rightarrow> (Inl e, w1)
         | (Inr (Some r), w1) \<Rightarrow> (Inr r, w1)
         | (Inr None, w1) \<Rightarrow>
             (case cookie_header of
                Some (c # cs) \<Rightarrow> web_tier (c # cs) w1
              | _ \<Rightarrow> last_resort w1))"

section \<open>Cache layer and the endpoint\<close>

text \<open>
  A Python float: a finite one with its sign bit and its magnitude (the exact value it
  denotes, so that \<open>Finite True 0\<close> is \<^verbatim>\<open>-0.0\<close>), an infinity with its sign, or \<^verbatim>\<open>nan\<close>.
  FastAPI accepts all of them for a \<^verbatim>\<open>float\<close> parameter.
\<close>

datatype pyfloat = Finite bool rat | Infinity bool | NaN

record query =
  lat :: pyfloat
  lng :: pyfloat
  rayon_km :: int
  q :: string
  date_start :: string
  date_end :: string
  level :: string
  etype :: string

text \<open>
  \<^verbatim>\<open>round(x, 4)\<close> on a float is correctly rounded: the exact value of \<open>x\<close> goes to the
  nearest multiple of \<open>1/10000\<close>, a tie to the even one, and the sign bit is kept (a
  negative \<open>x\<close> that rounds to zero gives \<^verbatim>\<open>-0.0\<close>); an infinity and \<^verbatim>\<open>nan\<close> are returned
  as they are. The finite result is kept as its sign and its number \<open>n\<close> of
  ten-thousandths: it is the float nearest to \<open>n/10000\<close>.
\<close>

datatype rounded = Decimal4 bool nat | RoundedInf bool | RoundedNaN

definition round_half_even :: "rat \<Rightarrow> int" where
  "round_half_even y =
     (let f = \<lfloor>y\<rfloor>; d = y - of_int f
      in if d < 1 / 2 then f else if 1 / 2 < d then f + 1 else if even f then f else f + 1)"

fun round4 :: "pyfloat \<Rightarrow> rounded" where
  "round4 (Finite neg m) = Decimal4 neg (nat (round_half_even (\<bar>m\<bar> * 10000)))"
| "round4 (Infinity neg) = RoundedInf neg"
| "round4 NaN = RoundedNaN"

text \<open>
  \<^verbatim>\<open>f"{v}"\<close> for such a float, which is \<^verbatim>\<open>repr(v)\<close>: the shortest text that reads back as
  \<open>v\<close>. Below \<open>10^11\<close> two neighbouring floats are less than \<open>1/10000\<close> apart, so the text
  is the integer part, a point, and the four decimals without their trailing zeros, one
  digit at least. From \<open>10^11\<close> on fewer decimals may do; there the text is \<open>big neg n\<close>,
  which the endpoint takes from the world (\<open>float_repr\<close>, Python's own \<^verbatim>\<open>repr\<close>).
\<close>

definition frac4 :: "nat \<Rightarrow> string" where
  "frac4 r =
     (let ds = str_nat r;
          padded = drop (length ds) ''0000'' @ ds;
          stripped = rev (dropWhile (\<lambda>c. c = CHR ''0'') (rev padded))
      in if stripped = [] then ''0'' else stripped)"

fun repr_float4 :: "(bool \<Rightarrow> nat \<Rightarrow> string) \<Rightarrow> rounded \<Rightarrow> string" where
  "repr_float4 big (Decimal4 neg n) =
     (if n < 1000000000000000
      then (if neg then ''-'' else []) @ str_nat (n div 10000) @ ''.'' @ frac4 (n mod 10000)
      else big neg n)"
| "repr_float4 big (RoundedInf neg) = (if neg then ''-inf'' else ''inf'')"
| "repr_float4 big RoundedNaN = ''nan''"

text \<open>
  The cache key: the eight \<^verbatim>\<open>key:value\<close> pairs in the order of their keys
  (\<^verbatim>\<open>de, ds, et, lat, lng, lvl, q, rayon\<close>, what \<^verbatim>\<open>sorted\<close> gives), joined by \<^verbatim>\<open>|\<close>.
\<close>

definition cache_key :: "world \<Rightarrow> query \<Rightarrow> string" where
  "cache_key w qr =
     join ''|''
       [''de:'' @ date_end qr, ''ds:'' @ date_start qr, ''et:'' @ etype qr,
        ''lat:'' @ repr_float4 (float_repr w) (round4 (lat qr)),
        ''lng:'' @ repr_float4 (float_repr w) (round4 (lng qr)),
        ''lvl:'' @ level qr, ''q:'' @ q qr, ''rayon:'' @ str_int (rayon_km qr)]"

text \<open>
  \<^verbatim>\<open>INTERNAL_CACHE\<close>: a dict from keys to \<^verbatim>\<open>(result, expiry)\<close>, as an association list
  that \<open>AList.update\<close> and \<open>AList.delete\<close> keep free of duplicate keys.
\<close>

type_synonym cache = "(string \<times> result \<times> rat) list"

definition CACHE_TTL :: rat where "CACHE_TTL = 3600"

text \<open>Step 2 of \<^verbatim>\<open>search_tenup\<close>: the lookup, which deletes an entry that has expired.\<close>

definition cache_get :: "string \<Rightarrow> rat \<Rightarrow> cache \<Rightarrow> result option \<times> cache" where
  "cache_get k now c =
     (case map_of c k of
        None \<Rightarrow> (None, c)
      | Some (data, expiry) \<Rightarrow>
          if now < expiry then (Some data, c) else (None, AList.delete k c))"

text \<open>Step 3: above 500 entries, the entries whose expiry is past are deleted.\<close>

definition cache_evict :: "rat \<Rightarrow> cache \<Rightarrow> cache" where
  "cache_evict now c =
     (if 500 < length c then filter (\<lambda>kv. \<not> snd (snd kv) < now) c else c)"

text \<open>Step 4: the store, with the time read at the start of the request.\<close>

definition cache_put :: "string \<Rightarrow> result \<Rightarrow> rat \<Rightarrow> cache \<Rightarrow> cache" where
  "cache_put k r now c = AList.update k (r, now + CACHE_TTL) c"

text \<open>
  \<^verbatim>\<open>search_tenup\<close>; \<open>now\<close> is \<^verbatim>\<open>datetime.now().timestamp()\<close>, read once, before the search.
  The handler \<^verbatim>\<open>except Exception\<close> also catches the \<^verbatim>\<open>HTTPException\<close>s of
  \<^verbatim>\<open>_perform_search\<close>.
\<close>

definition search_tenup ::
  "query \<Rightarrow> rat \<Rightarrow> cache \<Rightarrow> world \<Rightarrow> (exc + result) \<times> cache \<times> world" where
  "search_tenup qr now c w =
     (case cache_get (cache_key w qr) now c of
        (Some data, c1) \<Rightarrow> (Inr data, c1, w)
      | (None, c1) \<Rightarrow>
          (let c2 = cache_evict now c1
           in case perform_search w of
                (Inr r, w1) \<Rightarrow> (Inr r, cache_put (cache_key w qr) r now c2, w1)
              | (Inl e, w1) \<Rightarrow>
                  (Inl (HTTPException 500 (''Internal Server Error: '' @ exc_str e)), c2, w1)))"

section \<open>Auxiliary definitions for the properties\<close>

text \<open>
  A world in which nothing is configured and nothing outside answers: no variable, no
  file, every HTTP exchange fails at the transport, the browser times out. The example
  worlds below change the fields they need; none has a coordinate as large as \<open>10^11\<close>,
  so \<open>float_repr\<close> is never consulted.
\<close>

definition idle_world :: world where
  "idle_world =
     \<lparr>env_vercel = None, env_token = Missing, env_cookie = None,
      token_file = Missing, cookie_file = Missing, cookie_alt_file = Missing,
      token_writable = True, cookie_writable = True,
      http = (\<lambda>n. Inl (OtherError ''ConnectError'')), n_http = 0,
      browser = Inl (OtherError ''TimeoutError''),
      urljoin = (\<lambda>b l. l), unquote = (\<lambda>s. s),
      float_repr = (\<lambda>neg n. ''1e+300''), trace = []\<rparr>"

definition sample_result :: result where
  "sample_result = \<lparr>count = 0, items = [], source = ''mobile_api'', total_api = None\<rparr>"

definition file_bundle :: json where
  "file_bundle = JObj [(''access_token'', JStr ''from-file''), (''refresh_token'', JStr ''r1'')]"

definition env_bundle :: json where
  "env_bundle = JObj [(''access_token'', JStr ''from-env''), (''refresh_token'', JStr ''r2'')]"

definition both_tokens_world :: world where
  "both_tokens_world = idle_world\<lparr>token_file := Holds file_bundle, env_token := Holds env_bundle\<rparr>"

definition both_cookies_world :: world where
  "both_cookies_world =
     idle_world\<lparr>env_cookie := Some ''Cookie: a=1; b=2 '', cookie_file := Holds ''c=3''\<rparr>"

text \<open>
  Three latitudes that are floats exactly and agree in their first four decimals:
  48.0000152587890625, 48.000030517578125 and 48.00006103515625.
\<close>

definition lat_lower :: rat where "lat_lower = 48 + 1 / 65536"
definition lat_low :: rat where "lat_low = 48 + 1 / 32768"
definition lat_high :: rat where "lat_high = 48 + 1 / 16384"

definition sample_query :: query where
  "sample_query =
     \<lparr>lat = Finite False lat_low, lng = Finite False 2, rayon_km = 100, q = ''Paris'',
      date_start = ''2026-01-15'', date_end = ''2026-04-15'', level = [], etype = []\<rparr>"

definition key_of :: "json \<Rightarrow> json option" where
  "key_of item =
     (case item_id item of
        Inl e \<Rightarrow> None
      | Inr k \<Rightarrow> if truthy k then (case hash_key k of Inl e \<Rightarrow> None | Inr h \<Rightarrow> Some h) else None)"

definition scrape_inv :: "scrape \<Rightarrow> bool" where
  "scrape_inv s = (map key_of (all_items s) = map Some (seen_ids s) \<and> distinct (seen_ids s))"

definition is_update :: "json \<Rightarrow> bool" where
  "is_update cmd = (py_get cmd ''command'' JNull = Inr (JStr ''recherche_tournois_update''))"

definition has_update :: "json \<Rightarrow> bool" where
  "has_update d = (case py_iter d of Inl e \<Rightarrow> False | Inr cmds \<Rightarrow> list_ex is_update cmds)"

fun posted :: "event list \<Rightarrow> nat list" where
  "posted [] = []"
| "posted (AjaxPost p t # es) = p # posted es"
| "posted (e # es) = posted es"

fun is_mobile :: "event \<Rightarrow> bool" where
  "is_mobile (MobileGet t) = True"
| "is_mobile (TokenPost t) = True"
| "is_mobile (TokenSave t) = True"
| "is_mobile e = False"

fun is_nav :: "event \<Rightarrow> bool" where
  "is_nav (SiteGet u) = True"
| "is_nav (CookieSet n) = True"
| "is_nav Sleep = True"
| "is_nav e = False"

fun is_site :: "event \<Rightarrow> bool" where
  "is_site (SiteGet u) = True"
| "is_site (CookieSet n) = True"
| "is_site (AjaxPost p t) = True"
| "is_site (WebFetch c) = True"
| "is_site Sleep = True"
| "is_site e = False"


fun is_browser :: "event \<Rightarrow> bool" where
  "is_browser BrowserRun = True"
| "is_browser (CookieSave h) = True"
| "is_browser e = False"

definition adds :: "(event \<Rightarrow> bool) \<Rightarrow> world \<Rightarrow> world \<Rightarrow> bool" where
  "adds P w w' = (\<exists>evs. trace w' = trace w @ evs \<and> list_all P evs)"

definition redirect_status :: "response \<Rightarrow> bool" where
  "redirect_status r = (status_code r \<in> {301, 302, 303, 307, 308})"

definition client_redirect :: "response \<Rightarrow> string option" where
  "client_redirect r =
     (if contains ''decodeURIComponent'' (html r) \<and> contains ''cookietest'' (html r)
      then find_redirect (html r) else None)"

definition fetch_start :: "string \<Rightarrow> world \<Rightarrow> world" where
  "fetch_start ch w = w\<lparr>trace := trace w @ [WebFetch ch]\<rparr>"

definition empty_result :: result where
  "empty_result = \<lparr>count = 0, items = [], source = ''tenup_web'', total_api = Some (JInt 0)\<rparr>"

definition scripted :: "(exc + response) list \<Rightarrow> nat \<Rightarrow> exc + response" where
  "scripted rs n = (if n < length rs then rs ! n else Inl (OtherError ''ConnectError''))"

definition page_resp :: "string \<Rightarrow> response" where
  "page_resp h =
     \<lparr>status_code = 200, location = None, html = h,
      resp_url = ''https://tenup.fft.fr/recherche/tournois'', parsed = None, reason = []\<rparr>"

definition json_resp :: "json \<Rightarrow> response" where
  "json_resp d =
     \<lparr>status_code = 200, location = None, html = [],
      resp_url = ''https://tenup.fft.fr/system/ajax'', parsed = Some d, reason = []\<rparr>"

definition form_html :: string where
  "form_html =
     ''<input name='' @ [dquote] @ ''form_build_id'' @ [dquote] @ '' value='' @ [dquote] @
     ''form-1'' @ [dquote] @ ''> {'' @ [dquote] @ ''theme_token'' @ [dquote] @ '':'' @ [dquote] @
     ''tok0'' @ [dquote] @ ''}''"




definition web_world :: "(exc + response) list \<Rightarrow> world" where
  "web_world rs = idle_world\<lparr>env_cookie := Some ''a=1'', http := scripted rs\<rparr>"














definition rounds_to :: "rat \<Rightarrow> nat \<Rightarrow> bool" where
  "rounds_to m n =
     (\<bar>\<bar>m\<bar> * 10000 - of_nat n\<bar> < 1 / 2 \<or> (\<bar>\<bar>m\<bar> * 10000 - of_nat n\<bar> = 1 / 2 \<and> even n))"

definition same_other_fields :: "query \<Rightarrow> query \<Rightarrow> bool" where
  "same_other_fields q1 q2 =
     (rayon_km q1 = rayon_km q2 \<and> q q1 = q q2 \<and> date_start q1 = date_start q2 \<and>
      date_end q1 = date_end q2 \<and> level q1 = level q2 \<and> etype q1 = etype q2)"

fun slept :: "event list \<Rightarrow> nat" where
  "slept [] = 0"
| "slept (Sleep # es) = Suc (slept es)"
| "slept (e # es) = slept es"

definition slow_world :: world where
  "slow_world =
     web_world [Inr (page_resp []), Inr (page_resp []), Inr (page_resp form_html),
                Inr (json_resp (JList []))]"

definition slow_end :: world where
  "slow_end =
     slow_world\<lparr>n_http := 4,
       trace := [WebFetch ''a=1'', SiteGet (TENUP_BASE @ ''/''), SiteGet (TENUP_BASE @ SEARCH_PATH),
                 Sleep, SiteGet (TENUP_BASE @ SEARCH_PATH), AjaxPost 0 (JStr ''tok0'')]\<rparr>"

definition slow_failed :: world where
  "slow_failed =
     slow_end\<lparr>n_http := 5,
       trace := trace slow_end @ [WebFetch ''a=1'', SiteGet (TENUP_BASE @ ''/'')]\<rparr>"

definition sample_key :: string where
  "sample_key = ''de:2026-04-15|ds:2026-01-15|et:|lat:48.0|lng:2.0|lvl:|q:Paris|rayon:100''"

section \<open>Evaluation lemmas\<close>

lemma str_nat_numeral:
  "str_nat (numeral k) =
     (if (numeral k :: nat) < 10 then [''0123456789'' ! numeral k]
      else str_nat (numeral k div 10) @ [''0123456789'' ! (numeral k mod 10)])"
  by (rule str_nat.simps)

lemma str_nat_0: "str_nat 0 = ''0''"
  by (simp add: str_nat.simps [of 0])

lemma str_nat_1: "str_nat 1 = ''1''" "str_nat (Suc 0) = ''1''"
  by (simp_all add: str_nat.simps [of 1] str_nat.simps [of "Suc 0"])

lemmas str_nat_eval = str_nat_numeral str_nat_0 str_nat_1

section \<open>Credential store: precedence\<close>

text \<open>
  The claim C8 as the specification states it fails for the token bundle: with a bundle
  in the token file and another one in \<^verbatim>\<open>TENUP_TOKEN\<close>, \<^verbatim>\<open>load_token_file\<close> returns the
  file's.
\<close>

theorem token_precedence_counterexample:
  "env_token both_tokens_world = Holds env_bundle \<and>
   token_file both_tokens_world = Holds file_bundle \<and>
   load_token_file both_tokens_world = file_bundle \<and>
   load_token_file both_tokens_world \<noteq> env_bundle"
  by (simp add: both_tokens_world_def idle_world_def load_token_file_def file_bundle_def env_bundle_def)

text \<open>
  Claim C8, amended. \<^verbatim>\<open>load_token_file\<close> returns what the token file holds whenever it
  can be read, whatever the variable says; otherwise what the variable holds; it returns
  \<^verbatim>\<open>None\<close> only when the file is missing or unreadable and the variable is unset, empty
  or unparsable, or when the one consulted holds JSON \<^verbatim>\<open>null\<close>.
  \<^verbatim>\<open>load_cookie_header\<close> returns the variable \<^verbatim>\<open>TENUP_COOKIE\<close> whenever it is set and not
  empty, whatever the files say; otherwise \<^verbatim>\<open>cookie.txt\<close>, otherwise \<^verbatim>\<open>cookies.txt\<close>; it
  returns \<^verbatim>\<open>None\<close> only when the variable is unset or empty and the first cookie file that
  exists cannot be read, or none exists.
\<close>

theorem credential_precedence:
  "(token_file w = Holds j \<longrightarrow> load_token_file w = j) \<and>
   (token_file w \<noteq> Holds (load_token_file w) \<longrightarrow> load_token_file w \<noteq> JNull \<longrightarrow>
      env_token w = Holds (load_token_file w)) \<and>
   (load_token_file w = JNull \<longrightarrow>
      token_file w = Holds JNull \<or>
      ((token_file w = Missing \<or> token_file w = Corrupt) \<and>
       (env_token w = Missing \<or> env_token w = Corrupt \<or> env_token w = Holds JNull))) \<and>
   (env_cookie w = Some (c # cs) \<longrightarrow>
      load_cookie_header w = Some (strip_cookie_prefix (c # cs))) \<and>
   ((env_cookie w = None \<or> env_cookie w = Some []) \<longrightarrow> cookie_file w = Holds s \<longrightarrow>
      load_cookie_header w = Some (collapse_lines (strip_cookie_prefix s))) \<and>
   ((env_cookie w = None \<or> env_cookie w = Some []) \<longrightarrow> cookie_file w = Missing \<longrightarrow>
      cookie_alt_file w = Holds s \<longrightarrow>
      load_cookie_header w = Some (collapse_lines (strip_cookie_prefix s))) \<and>
   (load_cookie_header w = None \<longrightarrow>
      (env_cookie w = None \<or> env_cookie w = Some []) \<and>
      (cookie_file w = Corrupt \<or>
       (cookie_file w = Missing \<and> (cookie_alt_file w = Corrupt \<or> cookie_alt_file w = Missing))))"
  by (cases "token_file w"; cases "env_token w"; cases "env_cookie w"; cases "cookie_file w";
      cases "cookie_alt_file w")
     (auto simp: load_token_file_def load_cookie_header_def read_cookie_file_def
           split: list.splits)

theorem credential_precedence_witness:
  "load_token_file both_tokens_world = file_bundle \<and>
   load_cookie_header both_cookies_world = Some ''a=1; b=2''"
  using credential_precedence [of both_tokens_world file_bundle]
        credential_precedence [of both_cookies_world _ "CHR ''C''" "''ookie: a=1; b=2 ''"]
  by (simp add: both_tokens_world_def both_cookies_world_def idle_world_def
      strip_cookie_prefix_def py_strip_def py_lower_def lower_char_def is_space_def after_colon_def)

lemma str_int_100: "str_int 100 = ''100''"
  by (simp add: str_int_def str_nat_eval)

section \<open>Web scrape: the deduplication invariant\<close>

lemma add_item_cases:
  "add_item item s = Inr s' \<Longrightarrow>
     (s' = s \<and> (key_of item = None \<or> (\<exists>h. key_of item = Some h \<and> h \<in> set (seen_ids s)))) \<or>
     (\<exists>h. key_of item = Some h \<and> h \<notin> set (seen_ids s) \<and>
          s' = s\<lparr>seen_ids := seen_ids s @ [h], all_items := all_items s @ [item]\<rparr>)"
  by (auto simp: add_item_def key_of_def split: sum.splits if_splits)


lemma add_item_fields:
  "add_item item s = Inr s' \<Longrightarrow>
     total_from_api s' = total_from_api s \<and> current_theme_token s' = current_theme_token s \<and>
     prefix (all_items s) (all_items s') \<and> set (seen_ids s) \<subseteq> set (seen_ids s')"
  by (drule add_item_cases) auto


lemma add_items_total [simp]: "total_from_api (fst (add_items l s)) = total_from_api s"
proof (induction l arbitrary: s)
  case Nil then show ?case by simp
next
  case (Cons a l)
  show ?case
  proof (cases "add_item a s")
    case (Inl e) then show ?thesis by simp
  next
    case (Inr s1)
    from add_item_fields [OF Inr] Cons [of s1] Inr show ?thesis by simp
  qed
qed







lemma inv_length: "scrape_inv s \<Longrightarrow> length (seen_ids s) = length (all_items s)"
  by (metis scrape_inv_def length_map)

lemma inv_upd [simp]:
  "scrape_inv (s\<lparr>total_from_api := t\<rparr>) = scrape_inv s"
  "scrape_inv (s\<lparr>current_theme_token := t\<rparr>) = scrape_inv s"
  by (simp_all add: scrape_inv_def)







lemma run_directive_no_update:
  "\<not> is_update cmd \<Longrightarrow>
     all_items (fst (run_directive first cmd s)) = all_items s \<and>
     seen_ids (fst (run_directive first cmd s)) = seen_ids s \<and>
     total_from_api (fst (run_directive first cmd s)) = total_from_api s"
  by (simp add: run_directive_def is_update_def split: sum.split)

lemma run_directives_step:
  "fst (run_directives first (c # cmds) s) =
     (case snd (run_directive first c s) of
        Some e \<Rightarrow> fst (run_directive first c s)
      | None \<Rightarrow> fst (run_directives first cmds (fst (run_directive first c s))))"
  by (cases "run_directive first c s") (simp split: option.split)




lemma run_directives_no_update:
  "\<not> list_ex is_update cmds \<Longrightarrow>
     all_items (fst (run_directives first cmds s)) = all_items s \<and>
     seen_ids (fst (run_directives first cmds s)) = seen_ids s \<and>
     total_from_api (fst (run_directives first cmds s)) = total_from_api s"
proof (induction cmds arbitrary: s)
  case Nil then show ?case by simp
next
  case (Cons c cmds)
  from Cons.prems have c: "\<not> is_update c" and r: "\<not> list_ex is_update cmds" by auto
  from run_directive_no_update [OF c, of first s] Cons.IH [OF r, of "fst (run_directive first c s)"]
  show ?case by (simp add: run_directives_step del: run_directives.simps split: option.split)
qed




lemma process_body_no_update:
  "parsed resp = None \<or> (\<exists>d. parsed resp = Some d \<and> \<not> has_update d) \<Longrightarrow>
     all_items (fst (process_body first resp s)) = all_items s \<and>
     seen_ids (fst (process_body first resp s)) = seen_ids s \<and>
     total_from_api (fst (process_body first resp s)) = total_from_api s"
proof (cases "parsed resp")
  case None then show ?thesis by (simp add: process_body_def resp_json_def)
next
  case (Some d)
  assume "parsed resp = None \<or> (\<exists>d. parsed resp = Some d \<and> \<not> has_update d)"
  with Some have n: "\<not> has_update d" by simp
  show ?thesis
  proof (cases "py_iter d")
    case (Inl e) with Some show ?thesis by (simp add: process_body_def resp_json_def)
  next
    case (Inr cmds)
    with n have "\<not> list_ex is_update cmds" by (simp add: has_update_def)
    from run_directives_no_update [OF this, of first s] Some Inr show ?thesis
      by (simp add: process_body_def resp_json_def)
  qed
qed

section \<open>Web scrape: one page and the pagination loop\<close>

lemma posted_append [simp]: "posted (xs @ ys) = posted xs @ posted ys"
  by (induction xs rule: posted.induct) auto


lemma nav_site: "is_nav e \<Longrightarrow> is_site e"
  by (cases e) auto

lemma exchange_fst [simp]: "fst (exchange ev w) = http w (n_http w)"
  by (simp add: exchange_def)

lemma exchange_snd [simp]:
  "snd (exchange ev w) = w\<lparr>n_http := Suc (n_http w), trace := trace w @ [ev]\<rparr>"
  by (simp add: exchange_def)

lemma exchange_eq:
  "exchange ev w = (http w (n_http w), w\<lparr>n_http := Suc (n_http w), trace := trace w @ [ev]\<rparr>)"
  by (simp add: exchange_def)

lemma fetch_page_world:
  "snd (fetch_page p s w) =
     w\<lparr>n_http := Suc (n_http w), trace := trace w @ [AjaxPost p (current_theme_token s)]\<rparr>"
  by (simp add: fetch_page_def exchange_eq split: sum.split prod.split option.split)



lemma paginate_Cons:
  "paginate (p # ps) s w =
     (case py_ge (length (seen_ids s)) (total_from_api s) of
        Inl e \<Rightarrow> (Inl e, w)
      | Inr True \<Rightarrow> (Inr s, w)
      | Inr False \<Rightarrow>
          (if snd (fst (fetch_page p s w))
           then paginate ps (fst (fst (fetch_page p s w))) (snd (fetch_page p s w))
           else (Inr (fst (fst (fetch_page p s w))), snd (fetch_page p s w))))"
  by (cases "fetch_page p s w") (auto split: sum.split bool.split prod.split)






section \<open>Negotiation and the whole web fetch\<close>

lemma adds_refl [simp]: "adds P w w"
  by (simp add: adds_def)

lemma adds_trans: "adds P w w1 \<Longrightarrow> adds P w1 w2 \<Longrightarrow> adds P w w2"
  by (auto simp: adds_def)

lemma adds_mono: "adds P w w' \<Longrightarrow> (\<And>e. P e \<Longrightarrow> Q e) \<Longrightarrow> adds Q w w'"
  by (auto simp: adds_def list_all_iff)

lemma adds_one: "P ev \<Longrightarrow> trace w' = trace w @ [ev] \<Longrightarrow> adds P w w'"
  by (simp add: adds_def)

lemma adds_exchange: "P ev \<Longrightarrow> adds P w (snd (exchange ev w))"
  by (simp add: adds_def)

lemma get_form_loop_Suc:
  "get_form_loop (Suc n) url h w =
     (let w1 = snd (exchange (SiteGet url) w)
      in case http w (n_http w) of
           Inl e \<Rightarrow> (Inl e, w1)
         | Inr r \<Rightarrow>
             if redirect_status r
             then (let loc = (case location r of None \<Rightarrow> [] | Some l \<Rightarrow> l)
                   in if contains ''queue-it.net'' loc
                      then (Inl (RuntimeError queue_redirect_msg), w1)
                      else get_form_loop n (urljoin w TENUP_BASE loc) (html r)
                             (w1\<lparr>trace := trace w1 @ [Sleep]\<rparr>))
             else if contains ''queue-it.net'' (resp_url r)
             then (Inl (RuntimeError queue_page_msg), w1)
             else (case client_redirect r of
                     Some g \<Rightarrow>
                       get_form_loop n (urljoin w TENUP_BASE (unquote w g)) (html r)
                         (w1\<lparr>trace := trace w1 @ [CookieSet ''cookietest'', Sleep]\<rparr>)
                   | None \<Rightarrow>
                       (case (find_form_build_id (html r), find_theme_token (html r)) of
                          (Some fid, Some tk) \<Rightarrow> (Inr (fid, tk), w1)
                        | _ \<Rightarrow>
                            get_form_loop n url (html r)
                              (w1\<lparr>trace := trace w1 @ [Sleep]\<rparr>))))"
  by (simp add: exchange_eq redirect_status_def client_redirect_def Let_def
           split: sum.split option.split)

lemma get_form_loop_adds:
  "get_form_loop n url h w = (res, w') \<Longrightarrow> adds is_nav w w'"
proof (induction n arbitrary: url h w)
  case 0 then show ?case by simp
next
  case (Suc n)
  let ?w1 = "snd (exchange (SiteGet url) w)"
  let ?w2 = "?w1\<lparr>trace := trace ?w1 @ [CookieSet ''cookietest'', Sleep]\<rparr>"
  let ?w3 = "?w1\<lparr>trace := trace ?w1 @ [Sleep]\<rparr>"
  have a1: "adds is_nav w ?w1" by (rule adds_exchange) simp
  have a2: "adds is_nav w ?w2" by (simp add: adds_def)
  have a3: "adds is_nav w ?w3" by (simp add: adds_def)
  consider (stop) "w' = ?w1"
    | (go1) u h' where "get_form_loop n u h' ?w3 = (res, w')"
    | (go2) u h' where "get_form_loop n u h' ?w2 = (res, w')"
    using Suc.prems
    by (auto simp: get_form_loop_Suc Let_def simp del: get_form_loop.simps exchange_snd
             split: sum.splits option.splits if_splits)
  then show ?case
  proof cases
    case stop with a1 show ?thesis by simp
  next
    case go1 from adds_trans [OF a3 Suc.IH [OF go1]] show ?thesis .
  next
    case go2 from adds_trans [OF a2 Suc.IH [OF go2]] show ?thesis .
  qed
qed

lemma get_form_state_adds: "get_form_state w = (res, w') \<Longrightarrow> adds is_nav w w'"
proof -
  assume g: "get_form_state w = (res, w')"
  let ?w1 = "snd (exchange (SiteGet (TENUP_BASE @ ''/'')) w)"
  have a1: "adds is_nav w ?w1" by (rule adds_exchange) simp
  from g consider (stop) "w' = ?w1"
    | (go) "get_form_loop 5 (TENUP_BASE @ SEARCH_PATH) [] ?w1 = (res, w')"
    by (auto simp: get_form_state_def exchange_eq split: sum.splits)
  then show ?thesis
  proof cases
    case stop with a1 show ?thesis by simp
  next
    case go from adds_trans [OF a1 get_form_loop_adds [OF go]] show ?thesis .
  qed
qed


lemma fetch_page_adds: "adds is_site w (snd (fetch_page p s w))"
  by (simp add: fetch_page_world adds_def)

lemma paginate_adds: "paginate ps s w = (res, w') \<Longrightarrow> adds is_site w w'"
proof (induction ps arbitrary: s w)
  case Nil then show ?case by simp
next
  case (Cons p ps)
  let ?w1 = "snd (fetch_page p s w)"
  consider (stop0) "w' = w" | (stop1) "w' = ?w1"
    | (go) "paginate ps (fst (fst (fetch_page p s w))) ?w1 = (res, w')"
    using Cons.prems
    by (auto simp: paginate_Cons simp del: paginate.simps split: sum.splits bool.splits if_splits)
  then show ?case
  proof cases
    case stop0 then show ?thesis by simp
  next
    case stop1 with fetch_page_adds show ?thesis by simp
  next
    case go from adds_trans [OF fetch_page_adds Cons.IH [OF go]] show ?thesis .
  qed
qed

lemma fetch_web_ajax_unfold:
  "fetch_web_ajax ch w =
     (case get_form_state (fetch_start ch w) of
        (Inl e, w1) \<Rightarrow> (Inl e, w1)
      | (Inr (fid, tk), w1) \<Rightarrow>
          (let w2 = snd (exchange (AjaxPost 0 (JStr tk)) w1)
           in case http w1 (n_http w1) of
                Inl e \<Rightarrow> (Inl e, w2)
              | Inr resp \<Rightarrow>
                  if \<not> is_success resp then (Inl (OtherError (reason resp)), w2)
                  else (case paginate [1..<10] (fst (process_body True resp (init_scrape tk))) w2 of
                          (Inl e, w3) \<Rightarrow> (Inl e, w3)
                        | (Inr s, w3) \<Rightarrow>
                            (Inr \<lparr>count = length (all_items s), items = all_items s,
                                  source = ''tenup_web'', total_api = Some (total_from_api s)\<rparr>, w3))))"
  by (simp add: fetch_web_ajax_def fetch_start_def exchange_eq raise_for_status_def Let_def
           split: sum.split prod.split)



lemma fetch_web_ajax_adds: "fetch_web_ajax ch w = (res, w') \<Longrightarrow> adds is_site w w'"
proof -
  assume f: "fetch_web_ajax ch w = (res, w')"
  have a0: "adds is_site w (fetch_start ch w)" by (simp add: adds_def fetch_start_def)
  obtain r1 w1 where g: "get_form_state (fetch_start ch w) = (r1, w1)" by fastforce
  from get_form_state_adds [OF g] have a1: "adds is_site (fetch_start ch w) w1"
    by (rule adds_mono) (rule nav_site)
  let ?w2 = "\<lambda>tk. snd (exchange (AjaxPost 0 (JStr tk)) w1)"
  have a2: "\<And>tk. adds is_site w1 (?w2 tk)" by (rule adds_exchange) simp
  from f g consider (s1) "w' = w1" | (s2) tk where "w' = ?w2 tk"
    | (s3) tk s0 r3 where "paginate [1..<10] s0 (?w2 tk) = (r3, w')"
    by (auto simp: fetch_web_ajax_unfold Let_def simp del: exchange_snd
             split: sum.splits prod.splits if_splits)
  then show ?thesis
  proof cases
    case s1 with adds_trans [OF a0 a1] show ?thesis by simp
  next
    case s2 with adds_trans [OF adds_trans [OF a0 a1] a2] show ?thesis by simp
  next
    case s3
    from adds_trans [OF adds_trans [OF adds_trans [OF a0 a1] a2] paginate_adds [OF s3]]
    show ?thesis .
  qed
qed


lemma fetch_web_ajax_empty:
  assumes "get_form_state (fetch_start ch w) = (Inr (fid, tk), w1)"
    and "http w1 (n_http w1) = Inr resp" and "is_success resp"
    and "parsed resp = None \<or> (\<exists>d. parsed resp = Some d \<and> \<not> has_update d)"
  shows "fetch_web_ajax ch w = (Inr empty_result, snd (exchange (AjaxPost 0 (JStr tk)) w1))"
proof -
  let ?s0 = "fst (process_body True resp (init_scrape tk))"
  from process_body_no_update [OF assms(4), of True "init_scrape tk"]
  have s0: "all_items ?s0 = []" "seen_ids ?s0 = []" "total_from_api ?s0 = JInt 0"
    by (simp_all add: init_scrape_def)
  have u: "[1..<10] = 1 # [2..<10]" by (simp add: upt_rec)
  have "paginate [1..<10] ?s0 (snd (exchange (AjaxPost 0 (JStr tk)) w1)) =
          (Inr ?s0, snd (exchange (AjaxPost 0 (JStr tk)) w1))"
    by (simp only: u paginate_Cons s0) simp
  with assms(1,2,3) s0 show ?thesis
    by (simp add: fetch_web_ajax_unfold Let_def empty_result_def del: exchange_snd)
qed

lemma fetch_web_ajax_status:
  assumes "get_form_state (fetch_start ch w) = (Inr (fid, tk), w1)"
    and "http w1 (n_http w1) = Inr resp" and "\<not> is_success resp"
  shows "fetch_web_ajax ch w =
           (Inl (OtherError (reason resp)), snd (exchange (AjaxPost 0 (JStr tk)) w1))"
  using assms by (simp add: fetch_web_ajax_unfold Let_def del: exchange_snd)

section \<open>Example responses\<close>

lemma form_html_tokens:
  "find_form_build_id form_html = Some ''form-1''"
  "find_theme_token form_html = Some ''tok0''"
  "client_redirect (page_resp form_html) = None"
  by (simp_all add: find_form_build_id_def find_theme_token_def match_form_build_id_def
        match_value_def match_at_def form_html_def dquote_def client_redirect_def page_resp_def)

lemma get_form_loop_numeral:
  "get_form_loop (numeral k) url h w =
     (let w1 = snd (exchange (SiteGet url) w)
      in case http w (n_http w) of
           Inl e \<Rightarrow> (Inl e, w1)
         | Inr r \<Rightarrow>
             if redirect_status r
             then (let loc = (case location r of None \<Rightarrow> [] | Some l \<Rightarrow> l)
                   in if contains ''queue-it.net'' loc
                      then (Inl (RuntimeError queue_redirect_msg), w1)
                      else get_form_loop (pred_numeral k) (urljoin w TENUP_BASE loc) (html r)
                             (w1\<lparr>trace := trace w1 @ [Sleep]\<rparr>))
             else if contains ''queue-it.net'' (resp_url r)
             then (Inl (RuntimeError queue_page_msg), w1)
             else (case client_redirect r of
                     Some g \<Rightarrow>
                       get_form_loop (pred_numeral k) (urljoin w TENUP_BASE (unquote w g)) (html r)
                         (w1\<lparr>trace := trace w1 @ [CookieSet ''cookietest'', Sleep]\<rparr>)
                   | None \<Rightarrow>
                       (case (find_form_build_id (html r), find_theme_token (html r)) of
                          (Some fid, Some tk) \<Rightarrow> (Inr (fid, tk), w1)
                        | _ \<Rightarrow>
                            get_form_loop (pred_numeral k) url (html r)
                              (w1\<lparr>trace := trace w1 @ [Sleep]\<rparr>))))"
  using get_form_loop_Suc [of "pred_numeral k" url h w]
  by (simp only: numeral_eq_Suc)


lemma page_resp_plain:
  "\<not> redirect_status (page_resp h)" "\<not> contains ''queue-it.net'' (resp_url (page_resp h))"
  "html (page_resp h) = h"
  by (simp_all add: redirect_status_def page_resp_def)

lemma json_resp_ok: "is_success (json_resp d)" "parsed (json_resp d) = Some d"
  by (simp_all add: is_success_def json_resp_def)

section \<open>The scenario of ten items out of twenty-five\<close>









section \<open>Pagination\<close>

lemma fetch_start_fields [simp]:
  "http (fetch_start ch w) = http w" "n_http (fetch_start ch w) = n_http w"
  "trace (fetch_start ch w) = trace w @ [WebFetch ch]"
  by (simp_all add: fetch_start_def)










section \<open>Deduplication\<close>

lemma web_world_fields:
  "http (web_world rs) = scripted rs" "n_http (web_world rs) = 0" "trace (web_world rs) = []"
  "token_file (web_world rs) = Missing" "env_token (web_world rs) = Missing"
  "env_cookie (web_world rs) = Some ''a=1''"
  by (simp_all add: web_world_def idle_world_def)

lemma scripted_nth:
  "scripted (a # rs) 0 = a" "scripted (a # rs) (Suc n) = scripted rs n"
  "scripted [] n = Inl (OtherError ''ConnectError'')"
  by (simp_all add: scripted_def)















section \<open>Orchestrator and endpoint: the paths taken\<close>

lemma mobile_tier_no_token: "\<not> truthy (load_token_file w) \<Longrightarrow> mobile_tier w = (Inr None, w)"
  by (simp add: mobile_tier_def)

lemma perform_search_web:
  "mobile_tier w = (Inr None, wm) \<Longrightarrow> load_cookie_header w = Some ch \<Longrightarrow> ch \<noteq> [] \<Longrightarrow>
     perform_search w = web_tier ch wm"
  by (cases ch) (simp_all add: perform_search_def)

lemma perform_search_last:
  "mobile_tier w = (Inr None, wm) \<Longrightarrow> load_cookie_header w = None \<or> load_cookie_header w = Some [] \<Longrightarrow>
     perform_search w = last_resort wm"
  by (auto simp: perform_search_def)

lemma web_tier_ok: "fetch_web_ajax ch w = (Inr r, w') \<Longrightarrow> web_tier ch w = (Inr r, w')"
  by (simp add: web_tier_def)

lemma search_tenup_miss:
  "fst (cache_get (cache_key w qr) now c) = None \<Longrightarrow>
     search_tenup qr now c w =
       (case perform_search w of
          (Inr r, w1) \<Rightarrow>
            (Inr r, cache_put (cache_key w qr) r now
                      (cache_evict now (snd (cache_get (cache_key w qr) now c))), w1)
        | (Inl e, w1) \<Rightarrow>
            (Inl (HTTPException 500 (''Internal Server Error: '' @ exc_str e)),
             cache_evict now (snd (cache_get (cache_key w qr) now c)), w1))"
  by (cases "cache_get (cache_key w qr) now c")
     (simp add: search_tenup_def Let_def split: prod.split sum.split)

lemma cache_put_lookup:
  "t < now + CACHE_TTL \<Longrightarrow> fst (cache_get k t (cache_put k r now c)) = Some r"
  by (simp add: cache_get_def cache_put_def update_conv')

lemma web_world_cookie: "load_cookie_header (web_world rs) = Some ''a=1''"
  by (simp add: load_cookie_header_def web_world_def idle_world_def strip_cookie_prefix_def
        py_strip_def py_lower_def is_space_def lower_char_def)

lemma web_world_no_token: "\<not> truthy (load_token_file (web_world rs))"
  by (simp add: load_token_file_def web_world_def idle_world_def)

section \<open>Cache fingerprint\<close>

lemma int_below: "of_int a < (of_int b :: rat) + 1 \<Longrightarrow> a \<le> b"
proof -
  assume "of_int a < (of_int b :: rat) + 1"
  then have "(of_int a :: rat) < of_int (b + 1)" by simp
  then have "a < b + 1" by (simp only: of_int_less_iff)
  then show ?thesis by simp
qed

lemma round_half_even_iff:
  "(round_half_even y = n) = (\<bar>y - of_int n\<bar> < 1 / 2 \<or> (\<bar>y - of_int n\<bar> = 1 / 2 \<and> even n))"
proof -
  define f where "f = \<lfloor>y\<rfloor>"
  have a: "of_int f \<le> y" "y < of_int f + 1"
    using floor_correct [of y] by (simp_all add: f_def)
  have r: "round_half_even y =
             (if y - of_int f < 1 / 2 then f else if 1 / 2 < y - of_int f then f + 1
              else if even f then f else f + 1)"
    by (simp add: round_half_even_def Let_def f_def)
  consider (lo) "y - of_int f < 1 / 2" | (hi) "1 / 2 < y - of_int f" | (tie) "y - of_int f = 1 / 2"
    by linarith
  then show ?thesis
  proof cases
    case lo
    have "(f = n) = (\<bar>y - of_int n\<bar> < 1 / 2 \<or> (\<bar>y - of_int n\<bar> = 1 / 2 \<and> even n))"
    proof
      assume "f = n"
      with a lo have "\<bar>y - of_int n\<bar> < 1 / 2" by linarith
      then show "\<bar>y - of_int n\<bar> < 1 / 2 \<or> (\<bar>y - of_int n\<bar> = 1 / 2 \<and> even n)" by simp
    next
      assume "\<bar>y - of_int n\<bar> < 1 / 2 \<or> (\<bar>y - of_int n\<bar> = 1 / 2 \<and> even n)"
      then have "\<bar>y - of_int n\<bar> \<le> 1 / 2" by linarith
      then have b: "y - of_int n \<le> 1 / 2" "of_int n - y \<le> 1 / 2" by linarith+
      from b(2) lo have "of_int n < (of_int f :: rat) + 1" by linarith
      then have 1: "n \<le> f" by (rule int_below)
      from b(1) a(1) have "of_int f < (of_int n :: rat) + 1" by linarith
      then have 2: "f \<le> n" by (rule int_below)
      from 1 2 show "f = n" by simp
    qed
    with lo r show ?thesis by simp
  next
    case hi
    have "(f + 1 = n) = (\<bar>y - of_int n\<bar> < 1 / 2 \<or> (\<bar>y - of_int n\<bar> = 1 / 2 \<and> even n))"
    proof
      assume "f + 1 = n"
      then have "(of_int n :: rat) = of_int f + 1" by auto
      with a hi have "\<bar>y - of_int n\<bar> < 1 / 2" by linarith
      then show "\<bar>y - of_int n\<bar> < 1 / 2 \<or> (\<bar>y - of_int n\<bar> = 1 / 2 \<and> even n)" by simp
    next
      assume "\<bar>y - of_int n\<bar> < 1 / 2 \<or> (\<bar>y - of_int n\<bar> = 1 / 2 \<and> even n)"
      then have "\<bar>y - of_int n\<bar> \<le> 1 / 2" by linarith
      then have b: "y - of_int n \<le> 1 / 2" "of_int n - y \<le> 1 / 2" by linarith+
      from b(2) a(2) have "of_int n < (of_int (f + 1) :: rat) + 1" by (simp; linarith?)
      then have 1: "n \<le> f + 1" by (rule int_below)
      from b(1) hi have "of_int (f + 1) < (of_int n :: rat) + 1" by (simp; linarith?)
      then have 2: "f + 1 \<le> n" by (rule int_below)
      from 1 2 show "f + 1 = n" by simp
    qed
    with hi r show ?thesis by simp
  next
    case tie
    then have y: "y = of_int f + 1 / 2" by simp
    have e: "(\<bar>y - of_int n\<bar> = 1 / 2) = (n = f \<or> n = f + 1)"
    proof
      assume "\<bar>y - of_int n\<bar> = 1 / 2"
      then have "y - of_int n = 1 / 2 \<or> of_int n - y = 1 / 2" by (simp add: abs_if split: if_splits)
      then have "(of_int n :: rat) = of_int f \<or> (of_int n :: rat) = of_int (f + 1)"
        unfolding y by auto
      then show "n = f \<or> n = f + 1" by (simp only: of_int_eq_iff)
    next
      assume "n = f \<or> n = f + 1"
      then show "\<bar>y - of_int n\<bar> = 1 / 2" unfolding y by auto
    qed
    have l: "\<not> \<bar>y - of_int n\<bar> < 1 / 2"
    proof
      assume "\<bar>y - of_int n\<bar> < 1 / 2"
      then have b: "y - of_int n < 1 / 2" "of_int n - y < 1 / 2" by linarith+
      from b(1) have "of_int f < (of_int n :: rat)" unfolding y by simp
      then have 1: "f < n" by (simp only: of_int_less_iff)
      from b(2) have "of_int n < (of_int f :: rat) + 1" unfolding y by simp
      then have "n \<le> f" by (rule int_below)
      with 1 show False by simp
    qed
    from tie r have "round_half_even y = (if even f then f else f + 1)" by simp
    with e l show ?thesis by auto
  qed
qed

lemma rounds_to_round4: "rounds_to m n \<Longrightarrow> round4 (Finite s m) = Decimal4 s n"
proof -
  assume "rounds_to m n"
  then have "round_half_even (\<bar>m\<bar> * 10000) = int n"
    by (simp add: round_half_even_iff rounds_to_def)
  then show ?thesis by simp
qed

lemma round4_rounds_to: "round4 (Finite s m) = Decimal4 s' n \<Longrightarrow> s' = s \<and> rounds_to m n"
proof -
  assume a: "round4 (Finite s m) = Decimal4 s' n"
  have "0 \<le> round_half_even (\<bar>m\<bar> * 10000)"
  proof -
    have "0 \<le> \<lfloor>\<bar>m\<bar> * 10000\<rfloor>" by simp
    then show ?thesis by (simp add: round_half_even_def Let_def)
  qed
  with a have "round_half_even (\<bar>m\<bar> * 10000) = int n" by auto
  with a show ?thesis by (simp add: round_half_even_iff rounds_to_def)
qed

lemma key_congruence:
  "round4 (lat q1) = round4 (lat q2) \<Longrightarrow> round4 (lng q1) = round4 (lng q2) \<Longrightarrow>
   same_other_fields q1 q2 \<Longrightarrow> cache_key w q1 = cache_key w q2"
  by (simp add: cache_key_def same_other_fields_def)

lemma key_lat_only:
  "(cache_key w (qr\<lparr>lat := x\<rparr>) = cache_key w (qr\<lparr>lat := y\<rparr>)) =
     (repr_float4 (float_repr w) (round4 x) = repr_float4 (float_repr w) (round4 y))"
  by (simp add: cache_key_def)

lemma repr_zero:
  "repr_float4 big (round4 (Finite True 0)) = ''-0.0''"
  "repr_float4 big (round4 (Finite False 0)) = ''0.0''"
  by (simp_all add: round_half_even_def frac4_def str_nat_eval)

lemma rounds_lat:
  "rounds_to lat_low 480000" "rounds_to lat_lower 480000" "rounds_to lat_high 480001"
  "rounds_to 2 20000"
  by (simp_all add: rounds_to_def lat_low_def lat_lower_def lat_high_def)

lemma repr_a: "repr_float4 big (Decimal4 False 480000) = ''48.0''"
  by (simp add: frac4_def str_nat_eval)

lemma repr_b: "repr_float4 big (Decimal4 False 480001) = ''48.0001''"
  by (simp add: frac4_def str_nat_eval)

lemma repr_two: "repr_float4 big (Decimal4 False 20000) = ''2.0''"
  by (simp add: frac4_def str_nat_eval)

lemma k1: "cache_key w sample_query = ''de:2026-04-15|ds:2026-01-15|et:|lat:48.0|lng:2.0|lvl:|q:Paris|rayon:100''"
  by (simp add: cache_key_def sample_query_def rounds_to_round4 [OF rounds_lat(1)]
        rounds_to_round4 [OF rounds_lat(4)] repr_a repr_two str_int_100 del: round4.simps repr_float4.simps)

lemma k2: "cache_key w (sample_query\<lparr>lat := Finite False lat_high\<rparr>) = ''de:2026-04-15|ds:2026-01-15|et:|lat:48.0001|lng:2.0|lvl:|q:Paris|rayon:100''"
  by (simp add: cache_key_def sample_query_def rounds_to_round4 [OF rounds_lat(3)]
        rounds_to_round4 [OF rounds_lat(4)] repr_b repr_two str_int_100 del: round4.simps repr_float4.simps)

lemma fl: "\<lfloor>lat_low * 10000\<rfloor> = 480000" "\<lfloor>lat_high * 10000\<rfloor> = 480000"
  by (simp_all add: floor_eq_iff lat_low_def lat_high_def)

text \<open>
  Claim C6, as stated, fails: the coordinates are rounded, not truncated. The latitudes
  \<open>lat_low\<close> (48.000030517578125) and \<open>lat_high\<close> (48.00006103515625) have the same first
  four decimals, 48.0000, and differ only from the fifth decimal on; every other field
  of the two queries is the same. Their keys differ: \<^verbatim>\<open>lat:48.0\<close> against \<^verbatim>\<open>lat:48.0001\<close>.
\<close>

theorem fingerprint_counterexample:
  "lat sample_query = Finite False lat_low \<and>
   \<lfloor>lat_low * 10000\<rfloor> = \<lfloor>lat_high * 10000\<rfloor> \<and>
   same_other_fields sample_query (sample_query\<lparr>lat := Finite False lat_high\<rparr>) \<and>
   lng sample_query = lng (sample_query\<lparr>lat := Finite False lat_high\<rparr>) \<and>
   cache_key idle_world sample_query =
     ''de:2026-04-15|ds:2026-01-15|et:|lat:48.0|lng:2.0|lvl:|q:Paris|rayon:100'' \<and>
   cache_key idle_world (sample_query\<lparr>lat := Finite False lat_high\<rparr>) =
     ''de:2026-04-15|ds:2026-01-15|et:|lat:48.0001|lng:2.0|lvl:|q:Paris|rayon:100'' \<and>
   cache_key idle_world sample_query \<noteq>
     cache_key idle_world (sample_query\<lparr>lat := Finite False lat_high\<rparr>)"
proof -
  have a: "lat sample_query = Finite False lat_low" by (simp add: sample_query_def)
  have b: "\<lfloor>lat_low * 10000\<rfloor> = \<lfloor>lat_high * 10000\<rfloor>" by (simp add: fl)
  have c: "same_other_fields sample_query (sample_query\<lparr>lat := Finite False lat_high\<rparr>)"
    by (simp add: same_other_fields_def)
  have d: "lng sample_query = lng (sample_query\<lparr>lat := Finite False lat_high\<rparr>)" by simp
  have e: "cache_key idle_world sample_query \<noteq>
     cache_key idle_world (sample_query\<lparr>lat := Finite False lat_high\<rparr>)"
    by (simp add: k1 k2)
  show ?thesis by (intro conjI) (rule a, rule b, rule c, rule d, rule k1, rule k2, rule e)
qed

text \<open>
  Claim C6, amended. \<^verbatim>\<open>round(x, 4)\<close> takes a finite coordinate to the multiple of
  \<open>1/10000\<close> nearest to it, to the even one at a tie, and keeps its sign bit
  (\<open>round_half_even y = i\<close> exactly when \<open>i\<close> is within one half of \<open>y\<close>, and even when it is
  exactly one half away). Two queries whose other fields are equal, whose latitudes have
  the same sign and round to the same number of ten-thousandths, and whose longitudes
  do too, have the same cache key; so do any two queries with identical normalized
  fields. Two queries that differ in the latitude only have the same key exactly when
  the texts of their rounded latitudes are the same. Below \<open>10^11\<close> that text is the sign,
  the integer part and the decimals without trailing zeros, so \<^verbatim>\<open>-0.0\<close> and \<^verbatim>\<open>0.0\<close> give
  different keys; \<^verbatim>\<open>nan\<close> and the infinities are printed as such.
\<close>

theorem fingerprint_rounded:
  "((round_half_even y = i) = (\<bar>y - of_int i\<bar> < 1 / 2 \<or> (\<bar>y - of_int i\<bar> = 1 / 2 \<and> even i))) \<and>
   ((round4 (Finite s m) = Decimal4 s' n) = (s' = s \<and> rounds_to m n)) \<and>
   (lat q1 = Finite s a \<and> lat q2 = Finite s b \<and> rounds_to a n \<and> rounds_to b n \<and>
    lng q1 = Finite s' c \<and> lng q2 = Finite s' d \<and> rounds_to c n' \<and> rounds_to d n' \<and>
    same_other_fields q1 q2 \<longrightarrow> cache_key w q1 = cache_key w q2) \<and>
   (round4 (lat q1) = round4 (lat q2) \<and> round4 (lng q1) = round4 (lng q2) \<and>
    same_other_fields q1 q2 \<longrightarrow> cache_key w q1 = cache_key w q2) \<and>
   ((cache_key w (qr\<lparr>lat := x1\<rparr>) = cache_key w (qr\<lparr>lat := x2\<rparr>)) =
      (repr_float4 (float_repr w) (round4 x1) = repr_float4 (float_repr w) (round4 x2))) \<and>
   (rounds_to m n \<and> n < 1000000000000000 \<longrightarrow>
      repr_float4 (float_repr w) (round4 (Finite s m)) =
        (if s then ''-'' else []) @ str_nat (n div 10000) @ ''.'' @ frac4 (n mod 10000)) \<and>
   repr_float4 (float_repr w) (round4 (Finite True 0)) = ''-0.0'' \<and>
   repr_float4 (float_repr w) (round4 (Finite False 0)) = ''0.0'' \<and>
   repr_float4 (float_repr w) (round4 NaN) = ''nan'' \<and>
   repr_float4 (float_repr w) (round4 (Infinity neg)) = (if neg then ''-inf'' else ''inf'')"
proof -
  have g2: "(round4 (Finite s m) = Decimal4 s' n) = (s' = s \<and> rounds_to m n)"
    using round4_rounds_to [of s m s' n] rounds_to_round4 [of m n s] by blast
  have g3: "lat q1 = Finite s a \<and> lat q2 = Finite s b \<and> rounds_to a n \<and> rounds_to b n \<and>
    lng q1 = Finite s' c \<and> lng q2 = Finite s' d \<and> rounds_to c n' \<and> rounds_to d n' \<and>
    same_other_fields q1 q2 \<longrightarrow> cache_key w q1 = cache_key w q2"
  proof
    assume h: "lat q1 = Finite s a \<and> lat q2 = Finite s b \<and> rounds_to a n \<and> rounds_to b n \<and>
      lng q1 = Finite s' c \<and> lng q2 = Finite s' d \<and> rounds_to c n' \<and> rounds_to d n' \<and>
      same_other_fields q1 q2"
    then have "round4 (lat q1) = round4 (lat q2)" "round4 (lng q1) = round4 (lng q2)"
      by (simp_all add: rounds_to_round4 [of a n] rounds_to_round4 [of b n]
            rounds_to_round4 [of c n'] rounds_to_round4 [of d n'] del: round4.simps)
    with h show "cache_key w q1 = cache_key w q2" by (simp add: key_congruence)
  qed
  have g4: "round4 (lat q1) = round4 (lat q2) \<and> round4 (lng q1) = round4 (lng q2) \<and>
    same_other_fields q1 q2 \<longrightarrow> cache_key w q1 = cache_key w q2"
    by (simp add: key_congruence)
  have g6: "rounds_to m n \<and> n < 1000000000000000 \<longrightarrow>
      repr_float4 (float_repr w) (round4 (Finite s m)) =
        (if s then ''-'' else []) @ str_nat (n div 10000) @ ''.'' @ frac4 (n mod 10000)"
    by (simp add: rounds_to_round4 [of m n] del: round4.simps)
  have g9: "repr_float4 (float_repr w) (round4 NaN) = ''nan''" by simp
  have g10: "repr_float4 (float_repr w) (round4 (Infinity neg)) = (if neg then ''-inf'' else ''inf'')"
    by simp
  show ?thesis
    by (intro conjI) (rule round_half_even_iff, rule g2, rule g3, rule g4, rule key_lat_only,
        rule g6, rule repr_zero(1), rule repr_zero(2), rule g9, rule g10)
qed

theorem fingerprint_rounded_witness:
  "lat sample_query = Finite False lat_low \<and>
   lat (sample_query\<lparr>lat := Finite False lat_lower\<rparr>) = Finite False lat_lower \<and>
   lat_low \<noteq> lat_lower \<and> rounds_to lat_low 480000 \<and> rounds_to lat_lower 480000 \<and>
   round4 (Finite False lat_low) = Decimal4 False 480000 \<and>
   cache_key idle_world sample_query =
     cache_key idle_world (sample_query\<lparr>lat := Finite False lat_lower\<rparr>) \<and>
   repr_float4 (float_repr idle_world) (round4 (Finite False lat_low)) = ''48.0''"
proof -
  note A = fingerprint_rounded [where s = False and m = lat_low and s' = False and n = 480000
             and ?q1.0 = sample_query and ?q2.0 = "sample_query\<lparr>lat := Finite False lat_lower\<rparr>"
             and a = lat_low and b = lat_lower and c = 2 and d = 2 and n' = 20000
             and w = idle_world]
  have l: "lat sample_query = Finite False lat_low" "lng sample_query = Finite False 2"
    by (simp_all add: sample_query_def)
  have l2: "lat (sample_query\<lparr>lat := Finite False lat_lower\<rparr>) = Finite False lat_lower"
    "lng (sample_query\<lparr>lat := Finite False lat_lower\<rparr>) = Finite False 2"
    by (simp_all add: sample_query_def)
  have ne: "lat_low \<noteq> lat_lower" by (simp add: lat_low_def lat_lower_def)
  have so: "same_other_fields sample_query (sample_query\<lparr>lat := Finite False lat_lower\<rparr>)"
    by (simp add: same_other_fields_def)
  from A rounds_lat(1) have r: "round4 (Finite False lat_low) = Decimal4 False 480000"
    by blast
  from A l l2 rounds_lat so
  have k: "cache_key idle_world sample_query =
     cache_key idle_world (sample_query\<lparr>lat := Finite False lat_lower\<rparr>)"
    by blast
  have lim: "(480000::nat) < 1000000000000000" by simp
  from A rounds_lat(1) lim
  have "repr_float4 (float_repr idle_world) (round4 (Finite False lat_low)) =
          (if False then ''-'' else []) @ str_nat (480000 div 10000) @ ''.'' @ frac4 (480000 mod 10000)"
    by blast
  then have t: "repr_float4 (float_repr idle_world) (round4 (Finite False lat_low)) = ''48.0''"
    by (simp add: frac4_def str_nat_eval del: round4.simps repr_float4.simps)
  show ?thesis
    by (intro conjI) (rule l(1), rule l2(1), rule ne, rule rounds_lat(1), rule rounds_lat(2),
        rule r, rule k, rule t)
qed

section \<open>Cache layer: store, lookup, expiry\<close>

lemma get_form_state_retry:
  assumes "http w (n_http w) = Inr r0" and "http w (Suc (n_http w)) = Inr r1"
    and "http w (Suc (Suc (n_http w))) = Inr r2"
    and "\<not> redirect_status r1" and "\<not> contains ''queue-it.net'' (resp_url r1)"
    and "client_redirect r1 = None" and "find_form_build_id (html r1) = None"
    and "\<not> redirect_status r2" and "\<not> contains ''queue-it.net'' (resp_url r2)"
    and "client_redirect r2 = None"
    and "find_form_build_id (html r2) = Some fid" and "find_theme_token (html r2) = Some tk"
  shows "get_form_state w =
           (Inr (fid, tk),
            w\<lparr>n_http := Suc (Suc (Suc (n_http w))),
              trace := trace w @ [SiteGet (TENUP_BASE @ ''/''), SiteGet (TENUP_BASE @ SEARCH_PATH),
                                  Sleep, SiteGet (TENUP_BASE @ SEARCH_PATH)]\<rparr>)"
  using assms
  by (simp add: get_form_state_def exchange_eq get_form_loop_numeral
           del: get_form_loop.simps)

lemma empty_page_tokens:
  "client_redirect (page_resp []) = None" "find_form_build_id [] = None"
  by (simp_all add: client_redirect_def page_resp_def find_form_build_id_def
        match_form_build_id_def)

lemma slow_form:
  "get_form_state (fetch_start ''a=1'' slow_world) =
     (Inr (''form-1'', ''tok0''),
      slow_world\<lparr>n_http := Suc (Suc (Suc 0)),
        trace := [WebFetch ''a=1'', SiteGet (TENUP_BASE @ ''/''), SiteGet (TENUP_BASE @ SEARCH_PATH),
                  Sleep, SiteGet (TENUP_BASE @ SEARCH_PATH)]\<rparr>)"
proof -
  have "get_form_state (fetch_start ''a=1'' slow_world) =
          (Inr (''form-1'', ''tok0''),
           (fetch_start ''a=1'' slow_world)\<lparr>n_http := Suc (Suc (Suc (n_http (fetch_start ''a=1'' slow_world)))),
              trace := trace (fetch_start ''a=1'' slow_world) @
                 [SiteGet (TENUP_BASE @ ''/''), SiteGet (TENUP_BASE @ SEARCH_PATH),
                  Sleep, SiteGet (TENUP_BASE @ SEARCH_PATH)]\<rparr>)"
    by (rule get_form_state_retry [where ?r0.0 = "page_resp []" and ?r1.0 = "page_resp []"
              and ?r2.0 = "page_resp form_html"])
       (simp_all add: slow_world_def web_world_fields scripted_nth page_resp_plain
          form_html_tokens empty_page_tokens)
  then show ?thesis by (simp add: slow_world_def web_world_fields fetch_start_def)
qed

lemma slow_fetch: "fetch_web_ajax ''a=1'' slow_world = (Inr empty_result, slow_end)"
proof -
  let ?w1 = "slow_world\<lparr>n_http := Suc (Suc (Suc 0)),
        trace := [WebFetch ''a=1'', SiteGet (TENUP_BASE @ ''/''), SiteGet (TENUP_BASE @ SEARCH_PATH),
                  Sleep, SiteGet (TENUP_BASE @ SEARCH_PATH)]\<rparr>"
  have h: "http ?w1 (n_http ?w1) = Inr (json_resp (JList []))"
    by (simp add: slow_world_def web_world_fields scripted_nth)
  have n: "parsed (json_resp (JList [])) = None \<or>
           (\<exists>d. parsed (json_resp (JList [])) = Some d \<and> \<not> has_update d)"
    by (simp add: json_resp_ok has_update_def)
  have e: "snd (exchange (AjaxPost 0 (JStr ''tok0'')) ?w1) = slow_end"
    by (simp add: slow_end_def)
  from fetch_web_ajax_empty [OF slow_form h json_resp_ok(1) n] e show ?thesis by simp
qed

lemma slow_search: "perform_search slow_world = (Inr empty_result, slow_end)"
proof -
  have m: "mobile_tier slow_world = (Inr None, slow_world)"
    unfolding slow_world_def by (rule mobile_tier_no_token) (rule web_world_no_token)
  have c: "load_cookie_header slow_world = Some ''a=1''"
    unfolding slow_world_def by (rule web_world_cookie)
  have "perform_search slow_world = web_tier ''a=1'' slow_world"
    by (rule perform_search_web [OF m c]) simp
  with web_tier_ok [OF slow_fetch] show ?thesis by simp
qed

lemma slow_end_fields:
  "http slow_end (n_http slow_end) = Inl (OtherError ''ConnectError'')"
  "load_cookie_header slow_end = Some ''a=1''" "\<not> truthy (load_token_file slow_end)"
  "float_repr slow_end = float_repr slow_world" "n_http slow_end = 4"
  by (simp_all add: slow_end_def slow_world_def web_world_def idle_world_def scripted_def
        load_cookie_header_def load_token_file_def strip_cookie_prefix_def
        py_strip_def py_lower_def is_space_def lower_char_def)

lemma slow_again:
  "perform_search slow_end =
     (Inl (HTTPException 500 ''TenUp web error: ConnectError''), slow_failed)"
proof -
  have m: "mobile_tier slow_end = (Inr None, slow_end)"
    by (rule mobile_tier_no_token) (rule slow_end_fields(3))
  have p: "perform_search slow_end = web_tier ''a=1'' slow_end"
    by (rule perform_search_web [OF m slow_end_fields(2)]) simp
  have f: "fetch_web_ajax ''a=1'' slow_end = (Inl (OtherError ''ConnectError''), slow_failed)"
    using slow_end_fields(1)
    by (simp add: fetch_web_ajax_def get_form_state_def exchange_eq slow_failed_def
          slow_end_fields(5))
  show ?thesis by (simp add: p web_tier_def f web_error_def)
qed

lemma sample_key: "cache_key w sample_query = sample_key"
  by (simp add: k1 sample_key_def)

lemma slept_slow: "slept (trace slow_end) = 1"
  by (simp add: slow_end_def)

lemma search_tenup_hit:
  "map_of c (cache_key w qr) = Some (r, e) \<Longrightarrow> t < e \<Longrightarrow> search_tenup qr t c w = (Inr r, c, w)"
  by (simp add: search_tenup_def cache_get_def)

lemma search_tenup_expired:
  "map_of c (cache_key w qr) = Some (r, e) \<Longrightarrow> e \<le> t \<Longrightarrow>
     search_tenup qr t c w =
       (case perform_search w of
          (Inr r', w1) \<Rightarrow>
            (Inr r', cache_put (cache_key w qr) r' t
                       (cache_evict t (AList.delete (cache_key w qr) c)), w1)
        | (Inl x, w1) \<Rightarrow>
            (Inl (HTTPException 500 (''Internal Server Error: '' @ exc_str x)),
             cache_evict t (AList.delete (cache_key w qr) c), w1))"
  by (simp add: search_tenup_def cache_get_def Let_def split: prod.split sum.split)

lemma search_tenup_absent:
  "map_of c (cache_key w qr) = None \<Longrightarrow>
     search_tenup qr t c w =
       (case perform_search w of
          (Inr r', w1) \<Rightarrow> (Inr r', cache_put (cache_key w qr) r' t (cache_evict t c), w1)
        | (Inl x, w1) \<Rightarrow>
            (Inl (HTTPException 500 (''Internal Server Error: '' @ exc_str x)),
             cache_evict t c, w1))"
  by (simp add: search_tenup_def cache_get_def Let_def split: prod.split sum.split)

lemma evict_absent: "map_of c k = None \<Longrightarrow> map_of (cache_evict t c) k = None"
  by (auto simp: cache_evict_def map_of_eq_None_iff)

lemma put_entry: "map_of (cache_put k r now c) k = Some (r, now + 3600)"
  by (simp add: cache_put_def CACHE_TTL_def update_conv')

lemma put_other: "k' \<noteq> k \<Longrightarrow> map_of (cache_put k r now c) k' = map_of c k'"
  by (simp add: cache_put_def update_conv')

text \<open>
  Claim C7, as stated, fails: the 3600 seconds are counted from the clock reading taken
  at the start of the request, before the search, not from the time of the store. A
  request whose clock reads 0 finds nothing in the cache, searches (the negotiation
  sleeps one second, so the store happens when the clock reads 1 at least) and stores
  its result with the expiry 3600. A request whose clock reads 3600, which is less than
  3600 seconds after the store, does not get the payload: the entry is removed and the
  search runs again (here it fails, and the cache is left empty).
\<close>

theorem ttl_from_put_counterexample:
  "search_tenup sample_query 0 [] slow_world =
     (Inr empty_result, [(sample_key, empty_result, 3600)], slow_end) \<and>
   slept (trace slow_end) = 1 \<and>
   search_tenup sample_query 3600 [(sample_key, empty_result, 3600)] slow_end =
     (Inl (HTTPException 500 ''Internal Server Error: 500: TenUp web error: ConnectError''),
      [], slow_failed)"
proof -
  have a: "search_tenup sample_query 0 [] slow_world =
     (Inr empty_result, [(sample_key, empty_result, 3600)], slow_end)"
    by (simp add: search_tenup_def sample_key cache_get_def cache_evict_def cache_put_def
          CACHE_TTL_def slow_search)
  have b: "search_tenup sample_query 3600 [(sample_key, empty_result, 3600)] slow_end =
     (Inl (HTTPException 500 ''Internal Server Error: 500: TenUp web error: ConnectError''),
      [], slow_failed)"
    by (simp add: search_tenup_def sample_key cache_get_def cache_evict_def slow_again
          str_nat_eval)
  show ?thesis by (intro conjI) (rule a, rule slept_slow, rule b)
qed

text \<open>
  Claim C7, amended. A request that finds no entry for its key and whose search succeeds
  stores the result under the key with the expiry \<open>now + 3600\<close>, where \<open>now\<close> is the clock
  reading taken at the start of that request; the other keys keep their entries. When
  the search fails nothing is stored. A later request with the same key whose clock
  reads less than the expiry returns the stored payload and changes neither the cache
  nor the world. A request whose clock has reached the expiry removes the entry before
  it searches: when its search succeeds the new result is stored with the new expiry,
  when it fails the key has no entry any more. Nothing else removes entries, apart from
  the purge of expired entries a request performs when the cache holds more than 500.
\<close>

theorem cache_ttl_from_request_start:
  "(map_of c (cache_key w qr) = None \<and> perform_search w = (Inr r, w1) \<longrightarrow>
      search_tenup qr now c w =
        (Inr r, cache_put (cache_key w qr) r now (cache_evict now c), w1)) \<and>
   (map_of c (cache_key w qr) = None \<and> perform_search w = (Inl x, w1) \<longrightarrow>
      search_tenup qr now c w =
        (Inl (HTTPException 500 (''Internal Server Error: '' @ exc_str x)),
         cache_evict now c, w1) \<and>
      map_of (cache_evict now c) (cache_key w qr) = None) \<and>
   map_of (cache_put k r now c) k = Some (r, now + 3600) \<and>
   (k' \<noteq> k \<longrightarrow> map_of (cache_put k r now c) k' = map_of c k') \<and>
   (map_of c (cache_key w qr) = Some (r, e) \<and> t < e \<longrightarrow>
      search_tenup qr t c w = (Inr r, c, w)) \<and>
   (map_of c (cache_key w qr) = Some (r, e) \<and> e \<le> t \<and> perform_search w = (Inr r', w1) \<longrightarrow>
      search_tenup qr t c w =
        (Inr r', cache_put (cache_key w qr) r' t
                   (cache_evict t (AList.delete (cache_key w qr) c)), w1)) \<and>
   (map_of c (cache_key w qr) = Some (r, e) \<and> e \<le> t \<and> perform_search w = (Inl x, w1) \<longrightarrow>
      search_tenup qr t c w =
        (Inl (HTTPException 500 (''Internal Server Error: '' @ exc_str x)),
         cache_evict t (AList.delete (cache_key w qr) c), w1) \<and>
      map_of (cache_evict t (AList.delete (cache_key w qr) c)) (cache_key w qr) = None) \<and>
   (length c \<le> 500 \<longrightarrow> cache_evict t c = c)"
proof -
  have g1: "map_of c (cache_key w qr) = None \<and> perform_search w = (Inr r, w1) \<longrightarrow>
      search_tenup qr now c w =
        (Inr r, cache_put (cache_key w qr) r now (cache_evict now c), w1)"
    by (simp add: search_tenup_absent)
  have g2: "map_of c (cache_key w qr) = None \<and> perform_search w = (Inl x, w1) \<longrightarrow>
      search_tenup qr now c w =
        (Inl (HTTPException 500 (''Internal Server Error: '' @ exc_str x)),
         cache_evict now c, w1) \<and>
      map_of (cache_evict now c) (cache_key w qr) = None"
    by (simp add: search_tenup_absent evict_absent)
  have g4: "k' \<noteq> k \<longrightarrow> map_of (cache_put k r now c) k' = map_of c k'"
    by (simp add: put_other)
  have g5: "map_of c (cache_key w qr) = Some (r, e) \<and> t < e \<longrightarrow>
      search_tenup qr t c w = (Inr r, c, w)"
    by (simp add: search_tenup_hit)
  have g6: "map_of c (cache_key w qr) = Some (r, e) \<and> e \<le> t \<and> perform_search w = (Inr r', w1) \<longrightarrow>
      search_tenup qr t c w =
        (Inr r', cache_put (cache_key w qr) r' t
                   (cache_evict t (AList.delete (cache_key w qr) c)), w1)"
    by (simp add: search_tenup_expired)
  have d: "map_of (AList.delete (cache_key w qr) c) (cache_key w qr) = None"
    by (simp add: delete_conv')
  have g7: "map_of c (cache_key w qr) = Some (r, e) \<and> e \<le> t \<and> perform_search w = (Inl x, w1) \<longrightarrow>
      search_tenup qr t c w =
        (Inl (HTTPException 500 (''Internal Server Error: '' @ exc_str x)),
         cache_evict t (AList.delete (cache_key w qr) c), w1) \<and>
      map_of (cache_evict t (AList.delete (cache_key w qr) c)) (cache_key w qr) = None"
    by (simp add: search_tenup_expired evict_absent [OF d])
  have g8: "length c \<le> 500 \<longrightarrow> cache_evict t c = c"
    by (simp add: cache_evict_def)
  show ?thesis
    by (intro conjI) (rule g1, rule g2, rule put_entry, rule g4, rule g5, rule g6, rule g7, rule g8)
qed

theorem cache_ttl_from_request_start_witness:
  "search_tenup sample_query 0 [] slow_world =
     (Inr empty_result, cache_put sample_key empty_result 0 [], slow_end) \<and>
   map_of (cache_put sample_key empty_result 0 []) sample_key = Some (empty_result, 0 + 3600) \<and>
   search_tenup sample_query 3599 (cache_put sample_key empty_result 0 []) slow_end =
     (Inr empty_result, cache_put sample_key empty_result 0 [], slow_end) \<and>
   search_tenup sample_query 3600 (cache_put sample_key empty_result 0 []) slow_end =
     (Inl (HTTPException 500 (''Internal Server Error: '' @
             exc_str (HTTPException 500 ''TenUp web error: ConnectError''))),
      cache_evict 3600 (AList.delete sample_key (cache_put sample_key empty_result 0 [])),
      slow_failed) \<and>
   map_of (cache_evict 3600 (AList.delete sample_key (cache_put sample_key empty_result 0 [])))
     sample_key = None"
proof -
  let ?c1 = "cache_put sample_key empty_result 0 []"
  note A = cache_ttl_from_request_start [where c = "[]" and w = slow_world and qr = sample_query
             and r = empty_result and ?w1.0 = slow_end and now = 0 and k = sample_key]
  note B = cache_ttl_from_request_start [where c = ?c1 and w = slow_end and qr = sample_query
             and r = empty_result and e = 3600 and t = 3599]
  note C = cache_ttl_from_request_start [where c = ?c1 and w = slow_end and qr = sample_query
             and r = empty_result and e = 3600 and t = 3600
             and x = "HTTPException 500 ''TenUp web error: ConnectError''" and ?w1.0 = slow_failed]
  have m0: "map_of [] (cache_key slow_world sample_query) = None" by simp
  have ev: "cache_evict 0 [] = []" by (simp add: cache_evict_def)
  from A m0 slow_search ev have a: "search_tenup sample_query 0 [] slow_world =
     (Inr empty_result, ?c1, slow_end)"
    by (simp add: sample_key)
  from A have b: "map_of ?c1 sample_key = Some (empty_result, 0 + 3600)" by blast
  then have b': "map_of ?c1 (cache_key slow_end sample_query) = Some (empty_result, 3600)"
    by (simp add: sample_key)
  have lt: "(3599::rat) < 3600" "(3600::rat) \<le> 3600" by simp_all
  from B b' lt(1) have c: "search_tenup sample_query 3599 ?c1 slow_end = (Inr empty_result, ?c1, slow_end)"
    by blast
  from C b' lt(2) slow_again
  have d: "search_tenup sample_query 3600 ?c1 slow_end =
     (Inl (HTTPException 500 (''Internal Server Error: '' @
             exc_str (HTTPException 500 ''TenUp web error: ConnectError''))),
      cache_evict 3600 (AList.delete (cache_key slow_end sample_query) ?c1), slow_failed) \<and>
     map_of (cache_evict 3600 (AList.delete (cache_key slow_end sample_query) ?c1))
       (cache_key slow_end sample_query) = None"
    by blast
  from d have d1: "search_tenup sample_query 3600 ?c1 slow_end =
     (Inl (HTTPException 500 (''Internal Server Error: '' @
             exc_str (HTTPException 500 ''TenUp web error: ConnectError''))),
      cache_evict 3600 (AList.delete sample_key ?c1), slow_failed)"
    and d2: "map_of (cache_evict 3600 (AList.delete sample_key ?c1)) sample_key = None"
    by (simp_all only: sample_key)
  show ?thesis by (intro conjI) (rule a, rule b, rule c, rule d1, rule d2)
qed

end
